theory Spec2Isabelle
  imports Complex_Main "HOL-Library.List_Lexorder"
begin

section \<open>Python strings and the builtins the generators use\<close>

text \<open>
  A Python \<^verbatim>\<open>str\<close> is a sequence of Unicode code points, so it is modelled as a list
  of naturals; \<open>u\<close> turns an ASCII literal into such a list. Code points that are
  not ASCII are written as numbers (the Greek capital Omega is 937).
\<close>

type_synonym ustr = "nat list"

definition u :: "string \<Rightarrow> ustr" where
  "u s = map of_char s"

text \<open>\<^verbatim>\<open>str.startswith\<close>, \<^verbatim>\<open>str.endswith\<close>, the substring test \<^verbatim>\<open>sub in s\<close>.\<close>

definition startswith :: "ustr \<Rightarrow> ustr \<Rightarrow> bool" where
  "startswith s p = (take (length p) s = p)"

definition endswith :: "ustr \<Rightarrow> ustr \<Rightarrow> bool" where
  "endswith s p = (length p \<le> length s \<and> drop (length s - length p) s = p)"

fun contains :: "ustr \<Rightarrow> ustr \<Rightarrow> bool" where
  "contains sub [] = (sub = [])"
| "contains sub (c # cs) = (startswith (c # cs) sub \<or> contains sub cs)"

text \<open>
  \<^verbatim>\<open>s.split(sep)\<close> for a separator of one character, and \<^verbatim>\<open>sep.join(parts)\<close>.
  The split of any string has at least one part.
\<close>

fun py_split :: "nat \<Rightarrow> ustr \<Rightarrow> ustr list" where
  "py_split c [] = [[]]"
| "py_split c (x # xs) =
     (if x = c then [] # py_split c xs
      else (case py_split c xs of [] \<Rightarrow> [[x]] | p # ps \<Rightarrow> (x # p) # ps))"

fun py_join :: "ustr \<Rightarrow> ustr list \<Rightarrow> ustr" where
  "py_join sep [] = []"
| "py_join sep [p] = p"
| "py_join sep (p # q # ps) = p @ sep @ py_join sep (q # ps)"

text \<open>
  \<^verbatim>\<open>str.strip()\<close> removes the code points Python counts as whitespace from both
  ends: the ASCII controls 9 to 13 and 28 to 31, the space, and the Unicode spaces
  listed below.
\<close>

definition is_space :: "nat \<Rightarrow> bool" where
  "is_space c \<longleftrightarrow>
     (9 \<le> c \<and> c \<le> 13) \<or> (28 \<le> c \<and> c \<le> 32) \<or> c = 133 \<or> c = 160 \<or> c = 5760 \<or>
     (8192 \<le> c \<and> c \<le> 8202) \<or> c = 8232 \<or> c = 8233 \<or> c = 8239 \<or> c = 8287 \<or>
     c = 12288"

definition py_strip :: "ustr \<Rightarrow> ustr" where
  "py_strip s = rev (dropWhile is_space (rev (dropWhile is_space s)))"

text \<open>\<^verbatim>\<open>str(n)\<close> of an integer: its decimal numeral, with a minus sign when negative.\<close>

fun digits_of :: "nat \<Rightarrow> nat \<Rightarrow> ustr" where
  "digits_of b n =
     (if b < 2 \<or> n < b then [n] else digits_of b (n div b) @ [n mod b])"

declare digits_of.simps [simp del]

definition dec_char :: "nat \<Rightarrow> nat" where
  "dec_char d = 48 + d"

definition hex_char :: "nat \<Rightarrow> nat" where
  "hex_char d = (if d < 10 then 48 + d else 55 + d)"

definition str_int :: "int \<Rightarrow> ustr" where
  "str_int n = (if n < 0 then [45] else []) @ map dec_char (digits_of 10 (nat \<bar>n\<bar>))"

text \<open>The format \<^verbatim>\<open>f"{n:X}"\<close>: upper-case hexadecimal, sign first.\<close>

definition hex_upper :: "int \<Rightarrow> ustr" where
  "hex_upper n = (if n < 0 then [45] else []) @ map hex_char (digits_of 16 (nat \<bar>n\<bar>))"

subsection \<open>Cells\<close>

text \<open>
  A cell read from the sheet is missing (pandas NaN), a text, an integer or a float.
  A float cell holds a finite double, which is a rational number.
\<close>

datatype cell = NA | CStr ustr | CInt int | CFloat rat

definition isna :: "cell \<Rightarrow> bool" where
  "isna c = (c = NA)"

text \<open>The value of a Python float: a finite double, an infinity, or not-a-number.\<close>

datatype pyfloat = Finite rat | PosInf | NegInf | NotANumber

subsection \<open>The runtime\<close>

text \<open>
  The builtins whose result depends on the Unicode character database or on binary
  floating point are parameters of the model, collected in one record. Every
  general theorem below holds for every runtime. \<open>int_str b s\<close> is
  \<^verbatim>\<open>int(s, b)\<close> on a text, with \<open>None\<close> for its ValueError; \<open>float_str s\<close> is
  \<^verbatim>\<open>float(s)\<close> on a text, with \<open>None\<close> for its ValueError; \<open>repr_float\<close> is
  \<^verbatim>\<open>str\<close> of a float.
\<close>

record runtime =
  to_lower :: "ustr \<Rightarrow> ustr"
  to_upper :: "ustr \<Rightarrow> ustr"
  is_alpha :: "ustr \<Rightarrow> bool"
  is_upper :: "ustr \<Rightarrow> bool"
  is_digit :: "ustr \<Rightarrow> bool"
  int_str :: "nat \<Rightarrow> ustr \<Rightarrow> int option"
  float_str :: "ustr \<Rightarrow> pyfloat option"
  repr_float :: "pyfloat \<Rightarrow> ustr"

text \<open>
  \<^verbatim>\<open>float(c)\<close> of a cell. A number cell converts without loss: an integer cell
  comes from an Excel number, which has at most 15 significant digits. A missing
  cell is the float NaN. A text is parsed by the runtime.
\<close>

definition float_of :: "runtime \<Rightarrow> cell \<Rightarrow> pyfloat option" where
  "float_of rt c =
     (case c of
        NA \<Rightarrow> Some NotANumber
      | CStr s \<Rightarrow> float_str rt s
      | CInt n \<Rightarrow> Some (Finite (of_int n))
      | CFloat r \<Rightarrow> Some (Finite r))"

text \<open>\<^verbatim>\<open>str(c)\<close> of a cell; a missing cell is the float NaN and prints as \<^verbatim>\<open>nan\<close>.\<close>

definition str_cell :: "runtime \<Rightarrow> cell \<Rightarrow> ustr" where
  "str_cell rt c =
     (case c of
        NA \<Rightarrow> repr_float rt NotANumber
      | CStr s \<Rightarrow> s
      | CInt n \<Rightarrow> str_int n
      | CFloat r \<Rightarrow> repr_float rt (Finite r))"

section \<open>Node indicator columns\<close>

text \<open>
  \<^verbatim>\<open>ExcelHandler.extract_node_columns\<close> of \<^verbatim>\<open>core/excel_handler.py\<close>: the test on
  one stripped column label, and the loop over the labels.
\<close>

definition is_node_column :: "runtime \<Rightarrow> ustr \<Rightarrow> bool" where
  "is_node_column rt col_str =
     (if contains (u ''_'') col_str then
        (let parts = py_split 95 col_str;
             suffix = last parts;
             prefix = py_join (u ''_'') (butlast parts)
         in if is_alpha rt suffix \<and> is_upper rt suffix then
              \<not> (startswith prefix (u ''LV'') \<or> endswith prefix (u ''EV''))
            else False)
      else False)"

definition extract_node_columns :: "runtime \<Rightarrow> ustr list \<Rightarrow> ustr list" where
  "extract_node_columns rt cols = filter (is_node_column rt) (map py_strip cols)"

text \<open>
  The same step in \<^verbatim>\<open>DBCGenerator.load_matrix\<close> of \<^verbatim>\<open>dbc_generator.py\<close>. The
  seven fixed labels are added when the sheet has them, then the list is
  deduplicated and sorted.
\<close>

definition legacy_is_node_column :: "runtime \<Rightarrow> ustr \<Rightarrow> bool" where
  "legacy_is_node_column rt col_str =
     (if contains (u ''_'') col_str then
        (let parts = py_split 95 col_str;
             suffix = last parts;
             prefix = py_join (u ''_'') (butlast parts)
         in if is_alpha rt suffix \<and> is_upper rt suffix then
              \<not> startswith prefix (u ''LV'') \<and> \<not> endswith col_str (u ''EV'')
            else False)
      else False)"

definition legacy_fixed_nodes :: "ustr list" where
  "legacy_fixed_nodes =
     [u ''PCU_P'', u ''PCU_E'', u ''VCU_P'', u ''VCU_E'', u ''VCU_C'', u ''VCU_T'', u ''VCU_B'']"

definition legacy_node_columns :: "runtime \<Rightarrow> ustr list \<Rightarrow> ustr list" where
  "legacy_node_columns rt cols =
     sort (remdups (filter (legacy_is_node_column rt) (map py_strip cols)
                    @ filter (\<lambda>c. c \<in> set cols) legacy_fixed_nodes))"

section \<open>The sheet\<close>

text \<open>
  The pandas DataFrame: its column labels in sheet order and its rows. A row maps a
  label to the cell under it. \<open>row_get\<close> is \<^verbatim>\<open>row.get(col, default)\<close>;
  where the source gives no default, Python's \<^verbatim>\<open>None\<close> comes back for a missing
  label, which \<^verbatim>\<open>pd.isna\<close> treats as missing, so \<open>NA\<close> stands for it. A label
  that the search for a column did not find is \<^verbatim>\<open>None\<close> in the source, and
  \<^verbatim>\<open>row.get(None, default)\<close> is the default.
\<close>

type_synonym row = "ustr \<Rightarrow> cell option"

record dataframe =
  columns :: "ustr list"
  rows :: "row list"

definition row_get :: "row \<Rightarrow> ustr \<Rightarrow> cell \<Rightarrow> cell" where
  "row_get r col dflt = (case r col of None \<Rightarrow> dflt | Some c \<Rightarrow> c)"

definition row_get_opt :: "row \<Rightarrow> ustr option \<Rightarrow> cell \<Rightarrow> cell" where
  "row_get_opt r col dflt = (case col of None \<Rightarrow> dflt | Some c \<Rightarrow> row_get r c dflt)"

text \<open>
  The exceptions that can leave the extraction functions. \<open>ValueError\<close> also stands
  for the TypeError of \<^verbatim>\<open>float\<close>, which the source always catches together with it.
\<close>

datatype error = ValueError | OverflowError | KeyError

text \<open>
  \<^verbatim>\<open>int(float(v))\<close>: truncation toward zero; an infinity raises OverflowError and
  not-a-number raises ValueError.
\<close>

definition trunc_rat :: "rat \<Rightarrow> int" where
  "trunc_rat r = (if 0 \<le> r then \<lfloor>r\<rfloor> else \<lceil>r\<rceil>)"

definition int_of_pyfloat :: "pyfloat \<Rightarrow> error + int" where
  "int_of_pyfloat f =
     (case f of
        Finite r \<Rightarrow> Inr (trunc_rat r)
      | PosInf \<Rightarrow> Inl OverflowError
      | NegInf \<Rightarrow> Inl OverflowError
      | NotANumber \<Rightarrow> Inl ValueError)"

definition int_float :: "runtime \<Rightarrow> cell \<Rightarrow> error + int" where
  "int_float rt v =
     (case float_of rt v of None \<Rightarrow> Inl ValueError | Some f \<Rightarrow> int_of_pyfloat f)"

text \<open>\<^verbatim>\<open>str(float(v))\<close>; \<open>None\<close> is the ValueError or TypeError of the conversion.\<close>

definition str_float :: "runtime \<Rightarrow> cell \<Rightarrow> ustr option" where
  "str_float rt v = map_option (repr_float rt) (float_of rt v)"

section \<open>The core generator: messages\<close>

text \<open>The dictionaries \<^verbatim>\<open>_extract_messages\<close> and \<^verbatim>\<open>_extract_signals\<close> build.\<close>

record signal =
  sig_name :: ustr
  sig_start_bit :: ustr
  sig_length :: ustr
  sig_byte_order :: ustr
  sig_value_type :: ustr
  sig_factor :: ustr
  sig_offset :: ustr
  sig_min :: ustr
  sig_max :: ustr
  sig_unit :: ustr
  sig_receiver :: ustr

record message =
  msg_id :: ustr
  msg_hex_id :: ustr
  msg_name :: ustr
  msg_dlc :: ustr
  msg_sender :: ustr
  msg_signals :: "signal list"

text \<open>
  A Python dict keeps its keys in insertion order, and the generator iterates over
  it, so a dict is a list of pairs with distinct keys.
\<close>

type_synonym 'v pydict = "(ustr \<times> 'v) list"

definition vector_xxx :: ustr where
  "vector_xxx = u ''Vector__XXX''"

text \<open>The tests that pick the columns of \<^verbatim>\<open>_extract_messages\<close>.\<close>

definition is_message_id_col :: "ustr \<Rightarrow> bool" where
  "is_message_id_col c \<longleftrightarrow>
     contains (u ''ID'') c \<and> (contains (u ''Msg'') c \<or> contains [25253, 25991] c)"

definition is_message_name_col :: "ustr \<Rightarrow> bool" where
  "is_message_name_col c \<longleftrightarrow>
     (contains (u ''Name'') c \<and> contains (u ''Msg'') c) \<or>
     contains [25253, 25991, 21517, 31216] c"

definition is_dlc_col :: "ustr \<Rightarrow> bool" where
  "is_dlc_col c \<longleftrightarrow>
     (contains (u ''Length'') c \<and> contains (u ''Msg'') c) \<or>
     contains [25253, 25991, 38271, 24230] c"

text \<open>
  The \<^verbatim>\<open>try\<close> block on the id text: the decimal key and the hex text of the id,
  or \<open>None\<close> when \<^verbatim>\<open>int\<close> raises ValueError and the row is skipped.
\<close>

definition parse_message_id :: "runtime \<Rightarrow> ustr \<Rightarrow> (ustr \<times> ustr) option" where
  "parse_message_id rt message_id =
     (if startswith message_id (u ''0x'') \<or> startswith message_id (u ''0X'') then
        (case int_str rt 16 message_id of
           None \<Rightarrow> None
         | Some n \<Rightarrow> Some (str_int n, message_id))
      else
        (case int_str rt 10 message_id of
           None \<Rightarrow> None
         | Some n \<Rightarrow> Some (message_id, u ''0x'' @ hex_upper n)))"

text \<open>
  The DLC of a row: the default \<^verbatim>\<open>'8'\<close> unless the cell is a digit text with a
  value from 0 to 15. \<^verbatim>\<open>int(dlc_str)\<close> is outside any \<^verbatim>\<open>try\<close>, so its
  ValueError (a digit text that is not a decimal numeral) leaves the function.
\<close>

definition extract_dlc :: "runtime \<Rightarrow> ustr option \<Rightarrow> row \<Rightarrow> error + ustr" where
  "extract_dlc rt dlc_col r =
     (case dlc_col of
        None \<Rightarrow> Inr (u ''8'')
      | Some c \<Rightarrow>
          (let dlc_val = row_get r c NA in
           if isna dlc_val then Inr (u ''8'')
           else
             (let dlc_str = py_strip (str_cell rt dlc_val) in
              if is_digit rt dlc_str then
                (case int_str rt 10 dlc_str of
                   None \<Rightarrow> Inl ValueError
                 | Some dlc_num \<Rightarrow>
                     if 0 \<le> dlc_num \<and> dlc_num \<le> 15 then Inr dlc_str else Inr (u ''8''))
              else Inr (u ''8''))))"

text \<open>One turn of the loop over the rows in \<^verbatim>\<open>_extract_messages\<close>.\<close>

definition message_row ::
  "runtime \<Rightarrow> ustr \<Rightarrow> ustr option \<Rightarrow> ustr option \<Rightarrow> row \<Rightarrow> message pydict
     \<Rightarrow> error + message pydict" where
  "message_row rt message_id_col message_name_col dlc_col r messages =
     (let message_id_val = row_get r message_id_col NA in
      if isna message_id_val then Inr messages
      else
        (let message_id = py_strip (str_cell rt message_id_val) in
         if message_id = [] then Inr messages
         else
           (case parse_message_id rt message_id of
              None \<Rightarrow> Inr messages
            | Some (message_id_dec, message_id_hex) \<Rightarrow>
                (let name0 = (case message_name_col of
                                None \<Rightarrow> []
                              | Some c \<Rightarrow> py_strip (str_cell rt (row_get r c (CStr []))));
                     message_name = (if name0 = [] then u ''MSG_'' @ message_id_hex else name0)
                 in case extract_dlc rt dlc_col r of
                      Inl e \<Rightarrow> Inl e
                    | Inr dlc \<Rightarrow>
                        (let sender = vector_xxx in
                         if message_id_dec \<notin> set (map fst messages) then
                           Inr (messages @
                                [(message_id_dec,
                                  \<lparr>msg_id = message_id_dec, msg_hex_id = message_id_hex,
                                   msg_name = message_name, msg_dlc = dlc,
                                   msg_sender = sender, msg_signals = []\<rparr>)])
                         else Inr messages)))))"

fun message_rows ::
  "runtime \<Rightarrow> ustr \<Rightarrow> ustr option \<Rightarrow> ustr option \<Rightarrow> row list \<Rightarrow> message pydict
     \<Rightarrow> error + message pydict" where
  "message_rows rt idc namec dlcc [] messages = Inr messages"
| "message_rows rt idc namec dlcc (r # rs) messages =
     (case message_row rt idc namec dlcc r messages of
        Inl e \<Rightarrow> Inl e
      | Inr messages' \<Rightarrow> message_rows rt idc namec dlcc rs messages')"

definition extract_messages :: "runtime \<Rightarrow> dataframe \<Rightarrow> error + message pydict" where
  "extract_messages rt df =
     (case find is_message_id_col (columns df) of
        None \<Rightarrow> Inr []
      | Some message_id_col \<Rightarrow>
          message_rows rt message_id_col
            (find is_message_name_col (columns df))
            (find is_dlc_col (columns df))
            (rows df) [])"

section \<open>The core generator: signals\<close>

text \<open>
  The columns \<^verbatim>\<open>_extract_signals\<close> looks for. The name column is the first label
  that matches; each of the others is the last label that reaches its branch of the
  \<^verbatim>\<open>elif\<close> chain.
\<close>

definition is_signal_name_col :: "runtime \<Rightarrow> ustr \<Rightarrow> bool" where
  "is_signal_name_col rt c \<longleftrightarrow>
     (let col_lower = to_lower rt c in
      contains (u ''signal'') col_lower \<and>
      (contains (u ''name'') col_lower \<or> contains [21517, 31216] col_lower))"

record sigcols =
  start_bit_col :: "ustr option"
  start_byte_col :: "ustr option"
  signal_length_col :: "ustr option"
  byte_order_col :: "ustr option"
  value_type_col :: "ustr option"
  factor_col :: "ustr option"
  offset_col :: "ustr option"
  unit_col :: "ustr option"
  min_val_col :: "ustr option"
  max_val_col :: "ustr option"

definition no_sigcols :: sigcols where
  "no_sigcols =
     \<lparr>start_bit_col = None, start_byte_col = None, signal_length_col = None,
      byte_order_col = None, value_type_col = None, factor_col = None,
      offset_col = None, unit_col = None, min_val_col = None, max_val_col = None\<rparr>"

definition sigcols_step :: "runtime \<Rightarrow> sigcols \<Rightarrow> ustr \<Rightarrow> sigcols" where
  "sigcols_step rt sc col =
     (let col_lower = to_lower rt col in
      if contains (u ''start bit'') col_lower \<or> contains [36215, 22987, 20301] col_lower
        then sc\<lparr>start_bit_col := Some col\<rparr>
      else if contains (u ''start byte'') col_lower \<or>
              contains [36215, 22987, 23383, 33410] col_lower
        then sc\<lparr>start_byte_col := Some col\<rparr>
      else if contains (u ''bit length'') col_lower \<or>
              contains [20449, 21495, 38271, 24230] col_lower
        then sc\<lparr>signal_length_col := Some col\<rparr>
      else if contains (u ''byte order'') col_lower \<or>
              contains [25490, 21015, 26684, 24335] col_lower
        then sc\<lparr>byte_order_col := Some col\<rparr>
      else if contains (u ''date type'') col_lower \<or>
              contains [25968, 25454, 31867, 22411] col_lower
        then sc\<lparr>value_type_col := Some col\<rparr>
      else if contains (u ''factor'') col_lower \<or>
              contains [27604, 20363, 22240, 23376] col_lower
        then sc\<lparr>factor_col := Some col\<rparr>
      else if contains (u ''offset'') col_lower \<or> contains [20559, 31227, 37327] col_lower
        then sc\<lparr>offset_col := Some col\<rparr>
      else if contains (u ''unit'') col_lower
        then sc\<lparr>unit_col := Some col\<rparr>
      else if contains (u ''min'') col_lower \<or> contains [26368, 23567, 20540] col_lower
        then sc\<lparr>min_val_col := Some col\<rparr>
      else if contains (u ''max'') col_lower \<or> contains [26368, 22823, 20540] col_lower
        then sc\<lparr>max_val_col := Some col\<rparr>
      else sc)"

definition find_sigcols :: "runtime \<Rightarrow> ustr list \<Rightarrow> sigcols" where
  "find_sigcols rt cols = foldl (sigcols_step rt) no_sigcols cols"

text \<open>
  The fields of one signal, in the order the source computes them. A conversion
  inside \<^verbatim>\<open>try ... except (ValueError, TypeError): pass\<close> keeps the default on
  those two errors; the OverflowError of \<^verbatim>\<open>int(float(v))\<close> on an infinity is not
  caught there and leaves the function.
\<close>

definition extract_byte_order :: "runtime \<Rightarrow> sigcols \<Rightarrow> row \<Rightarrow> ustr" where
  "extract_byte_order rt sc r =
     (case byte_order_col sc of
        None \<Rightarrow> u ''Motorola''
      | Some c \<Rightarrow>
          (let v = row_get r c NA in
           if isna v then u ''Motorola''
           else
             (let s = to_lower rt (py_strip (str_cell rt v)) in
              if s \<in> set [u ''intel'', u ''little endian'', u ''little'']
              then u ''Intel'' else u ''Motorola'')))"

definition extract_length :: "runtime \<Rightarrow> sigcols \<Rightarrow> row \<Rightarrow> error + ustr" where
  "extract_length rt sc r =
     (case signal_length_col sc of
        None \<Rightarrow> Inr (u ''8'')
      | Some c \<Rightarrow>
          (let length_val = row_get r c NA in
           if isna length_val then Inr (u ''8'')
           else
             (case int_float rt length_val of
                Inl e \<Rightarrow> if e = ValueError then Inr (u ''8'') else Inl e
              | Inr len \<Rightarrow> if len > 0 then Inr (str_int len) else Inr (u ''8''))))"

definition extract_value_type :: "runtime \<Rightarrow> sigcols \<Rightarrow> row \<Rightarrow> ustr" where
  "extract_value_type rt sc r =
     (case value_type_col sc of
        None \<Rightarrow> u ''Unsigned''
      | Some c \<Rightarrow>
          (let v = row_get r c NA in
           if isna v then u ''Unsigned''
           else
             (let s = to_lower rt (py_strip (str_cell rt v)) in
              if s \<in> set [u ''unsigned'', [26080, 31526, 21495]]
              then u ''Unsigned'' else u ''Signed'')))"

definition extract_start_bit :: "runtime \<Rightarrow> sigcols \<Rightarrow> row \<Rightarrow> error + ustr" where
  "extract_start_bit rt sc r =
     (let start_byte_val = row_get_opt r (start_byte_col sc) (CInt 0);
          start_bit_val = row_get_opt r (start_bit_col sc) (CInt 0)
      in if \<not> isna start_byte_val \<and> \<not> isna start_bit_val then
           (case int_float rt start_byte_val of
              Inl e \<Rightarrow> if e = ValueError then Inr (str_int 0) else Inl e
            | Inr start_byte \<Rightarrow>
                (case int_float rt start_bit_val of
                   Inl e \<Rightarrow> if e = ValueError then Inr (str_int 0) else Inl e
                 | Inr bit_in_byte \<Rightarrow> Inr (str_int (start_byte * 8 + bit_in_byte))))
         else Inr (str_int 0))"

definition extract_float_text :: "runtime \<Rightarrow> ustr option \<Rightarrow> ustr \<Rightarrow> row \<Rightarrow> ustr" where
  "extract_float_text rt col dflt r =
     (case col of
        None \<Rightarrow> dflt
      | Some c \<Rightarrow>
          (let v = row_get r c NA in
           if isna v then dflt
           else (case str_float rt v of None \<Rightarrow> dflt | Some s \<Rightarrow> s)))"

definition extract_unit :: "runtime \<Rightarrow> sigcols \<Rightarrow> row \<Rightarrow> ustr" where
  "extract_unit rt sc r =
     (case unit_col sc of
        None \<Rightarrow> []
      | Some c \<Rightarrow>
          (let v = row_get r c NA in
           if isna v then [] else py_strip (str_cell rt v)))"

definition make_signal :: "runtime \<Rightarrow> sigcols \<Rightarrow> row \<Rightarrow> ustr \<Rightarrow> error + signal" where
  "make_signal rt sc r signal_name =
     (let byte_order = extract_byte_order rt sc r in
      case extract_length rt sc r of
        Inl e \<Rightarrow> Inl e
      | Inr signal_length \<Rightarrow>
          (let value_type = extract_value_type rt sc r in
           case extract_start_bit rt sc r of
             Inl e \<Rightarrow> Inl e
           | Inr start_bit \<Rightarrow>
               Inr \<lparr>sig_name = signal_name,
                    sig_start_bit = start_bit,
                    sig_length = signal_length,
                    sig_byte_order = byte_order,
                    sig_value_type = value_type,
                    sig_factor = extract_float_text rt (factor_col sc) (u ''1.0'') r,
                    sig_offset = extract_float_text rt (offset_col sc) (u ''0.0'') r,
                    sig_min = extract_float_text rt (min_val_col sc) (u ''0'') r,
                    sig_max = extract_float_text rt (max_val_col sc) (u ''0'') r,
                    sig_unit = extract_unit rt sc r,
                    sig_receiver = vector_xxx\<rparr>))"

text \<open>
  The state of the loop over the rows: the id of the message the following signal
  rows belong to, and the signals collected so far. (The counter
  \<^verbatim>\<open>signal_count\<close> only feeds the log and is left out.)
\<close>

record sigstate =
  current_msg_id :: "ustr option"
  signals :: "signal list pydict"

definition parse_current_id :: "runtime \<Rightarrow> ustr \<Rightarrow> ustr option" where
  "parse_current_id rt msg_id_str =
     (if startswith msg_id_str (u ''0x'') \<or> startswith msg_id_str (u ''0X'')
      then map_option str_int (int_str rt 16 msg_id_str)
      else map_option str_int (int_str rt 10 msg_id_str))"

definition append_signal :: "ustr \<Rightarrow> signal \<Rightarrow> signal list pydict \<Rightarrow> signal list pydict" where
  "append_signal k sg d =
     (if k \<notin> set (map fst d) then d @ [(k, [sg])]
      else map (\<lambda>(k', sgs). if k' = k then (k', sgs @ [sg]) else (k', sgs)) d)"

definition signal_row ::
  "runtime \<Rightarrow> ustr \<Rightarrow> ustr \<Rightarrow> sigcols \<Rightarrow> row \<Rightarrow> sigstate \<Rightarrow> error + sigstate" where
  "signal_row rt message_id_col signal_name_col sc r st =
     (let msg_id_val = row_get r message_id_col NA in
      if \<not> isna msg_id_val then
        (let msg_id_str = py_strip (str_cell rt msg_id_val) in
         if msg_id_str \<noteq> [] then Inr (st\<lparr>current_msg_id := parse_current_id rt msg_id_str\<rparr>)
         else Inr st)
      else
        (case current_msg_id st of
           None \<Rightarrow> Inr st
         | Some cur \<Rightarrow>
             if cur = [] then Inr st
             else
               (let signal_name_val = row_get r signal_name_col NA in
                if isna signal_name_val then Inr st
                else
                  (let signal_name = py_strip (str_cell rt signal_name_val) in
                   if signal_name = [] then Inr st
                   else
                     (case make_signal rt sc r signal_name of
                        Inl e \<Rightarrow> Inl e
                      | Inr sg \<Rightarrow> Inr (st\<lparr>signals := append_signal cur sg (signals st)\<rparr>))))))"

fun signal_rows ::
  "runtime \<Rightarrow> ustr \<Rightarrow> ustr \<Rightarrow> sigcols \<Rightarrow> row list \<Rightarrow> sigstate \<Rightarrow> error + sigstate" where
  "signal_rows rt idc namec sc [] st = Inr st"
| "signal_rows rt idc namec sc (r # rs) st =
     (case signal_row rt idc namec sc r st of
        Inl e \<Rightarrow> Inl e
      | Inr st' \<Rightarrow> signal_rows rt idc namec sc rs st')"

definition extract_signals :: "runtime \<Rightarrow> dataframe \<Rightarrow> error + signal list pydict" where
  "extract_signals rt df =
     (case find is_message_id_col (columns df) of
        None \<Rightarrow> Inr []
      | Some message_id_col \<Rightarrow>
          (case find (is_signal_name_col rt) (columns df) of
             None \<Rightarrow> Inr []
           | Some signal_name_col \<Rightarrow>
               (case signal_rows rt message_id_col signal_name_col
                       (find_sigcols rt (columns df)) (rows df)
                       \<lparr>current_msg_id = None, signals = []\<rparr> of
                  Inl e \<Rightarrow> Inl e
                | Inr st \<Rightarrow> Inr (signals st))))"

section \<open>The core generator: text of the file\<close>

text \<open>\<^verbatim>\<open>_generate_header\<close>; the flag \<^verbatim>\<open>is_canfd\<close> is not used by the source.\<close>

definition generate_header :: "bool \<Rightarrow> ustr" where
  "generate_header is_canfd =
     py_join [10]
     ([u ''VERSION '' @ [34, 34], [], []] @
      [u ''NS_ : '',
      u '' NS_DESC_'',
      u '' CM_'',
      u '' BA_DEF_'',
      u '' BA_'',
      u '' VAL_'',
      u '' CAT_DEF_'',
      u '' CAT_'',
      u '' FILTER'',
      u '' BA_DEF_DEF_'',
      u '' EV_DATA_'',
      u '' ENVVAR_DATA_'',
      u '' SGTYPE_'',
      u '' SGTYPE_VAL_'',
      u '' BA_DEF_SGTYPE_'',
      u '' BA_SGTYPE_'',
      u '' SIG_TYPE_REF_'',
      u '' VAL_TABLE_'',
      u '' SIG_GROUP_'',
      u '' SIG_VALTYPE_'',
      u '' SIGTYPE_VALTYPE_'',
      u '' BO_TX_BU_'',
      u '' BA_DEF_REL_'',
      u '' BA_REL_'',
      u '' BA_DEF_DEF_REL_'',
      u '' BU_SG_REL_'',
      u '' BU_EV_REL_'',
      u '' BU_BO_REL_'',
      u '' SG_MUL_VAL_'',
      []] @
      [u ''BS_:'', []] @
      [[]])"

text \<open>
  \<^verbatim>\<open>_extract_nodes\<close>: the suffixes of the node columns and the values of the first
  controller column, as a sorted list without duplicates.
\<close>

definition is_controller_col :: "ustr \<Rightarrow> bool" where
  "is_controller_col c \<longleftrightarrow>
     contains (u ''Controller'') c \<or> contains [25511, 21046, 22120] c"

definition extract_nodes :: "runtime \<Rightarrow> dataframe \<Rightarrow> ustr list \<Rightarrow> ustr list" where
  "extract_nodes rt df ncols =
     (let from_cols =
            filter (\<lambda>n. n \<noteq> [])
              (map (\<lambda>col. py_strip (last (py_split 95 col)))
                 (filter (contains (u ''_'')) ncols));
          from_ctrl =
            (case find is_controller_col (columns df) of
               None \<Rightarrow> []
             | Some c \<Rightarrow>
                 filter (\<lambda>n. n \<noteq> [])
                   (map (\<lambda>v. py_strip (str_cell rt v))
                      (filter (\<lambda>v. \<not> isna v) (map (\<lambda>r. row_get r c NA) (rows df)))))
      in sort (remdups (from_cols @ from_ctrl)))"

definition generate_nodes :: "ustr list \<Rightarrow> ustr" where
  "generate_nodes nodes =
     (if nodes \<noteq> [] then
        (let nodes' = (if vector_xxx \<notin> set nodes then nodes @ [vector_xxx] else nodes)
         in u ''BU_: '' @ py_join (u '' '') nodes' @ [10, 10, 10])
      else [10, 10, 10])"

text \<open>\<^verbatim>\<open>_generate_messages_and_signals\<close>: the BO_ line of a message, the SG_ line of
  a signal, and the whole block.\<close>

definition bo_line :: "ustr \<Rightarrow> message \<Rightarrow> ustr" where
  "bo_line mid msg =
     u ''BO_ '' @ mid @ u '' '' @ msg_name msg @ u '': '' @ msg_dlc msg @ u '' '' @ msg_sender msg"

definition sg_line :: "signal \<Rightarrow> ustr" where
  "sg_line sg =
     u '' SG_ '' @ sig_name sg @ u '' : '' @ sig_start_bit sg @ u ''|'' @ sig_length sg @
     u ''@1'' @ (if sig_value_type sg = u ''Unsigned'' then u ''+'' else u ''-'') @
     u '' ('' @ sig_factor sg @ u '','' @ sig_offset sg @ u '') ['' @ sig_min sg @ u ''|'' @
     sig_max sg @ u ''] '' @ [34] @ py_strip (sig_unit sg) @ [34] @ u '' '' @ sig_receiver sg"

definition message_block :: "signal list pydict \<Rightarrow> ustr \<times> message \<Rightarrow> ustr list" where
  "message_block sigs km =
     [bo_line (fst km) (snd km), []] @
     (case map_of sigs (fst km) of None \<Rightarrow> [] | Some sgs \<Rightarrow> map sg_line sgs) @
     [[], []]"

definition generate_messages_and_signals ::
  "message pydict \<Rightarrow> signal list pydict \<Rightarrow> ustr" where
  "generate_messages_and_signals messages sigs =
     py_join [10] (concat (map (message_block sigs) messages))"

section \<open>The core generator: one file per bus\<close>

text \<open>
  \<^verbatim>\<open>os.path.splitext\<close>: the extension starts at the last dot of the last path
  component, unless only dots precede it there. \<open>seps\<close> are the path separators of
  the platform (the slash, and the backslash on Windows).
\<close>

fun rfind_aux :: "nat \<Rightarrow> ustr \<Rightarrow> int \<Rightarrow> int \<Rightarrow> int" where
  "rfind_aux c [] i acc = acc"
| "rfind_aux c (x # xs) i acc = rfind_aux c xs (i + 1) (if x = c then i else acc)"

definition rfind :: "nat \<Rightarrow> ustr \<Rightarrow> int" where
  "rfind c p = rfind_aux c p 0 (- 1)"

definition splitext :: "nat list \<Rightarrow> ustr \<Rightarrow> ustr \<times> ustr" where
  "splitext seps p =
     (let sepIndex = foldl max (- 1) (map (\<lambda>s. rfind s p) seps);
          dotIndex = rfind 46 p
      in if dotIndex > sepIndex \<and>
            list_ex (\<lambda>c. c \<noteq> 46)
              (take (nat (dotIndex - (sepIndex + 1))) (drop (nat (sepIndex + 1)) p))
         then (take (nat dotIndex) p, drop (nat dotIndex) p)
         else (p, []))"

text \<open>
  The generator object: the loaded sheet (\<^verbatim>\<open>None\<close> before \<^verbatim>\<open>set_data\<close>) and the
  node columns.
\<close>

record generator =
  matrix_data :: "dataframe option"
  node_columns :: "ustr list"

text \<open>
  \<^verbatim>\<open>self.matrix_data[col].notna().sum()\<close>; a label that is not a column of the
  sheet raises KeyError.
\<close>

definition non_na_count :: "dataframe \<Rightarrow> ustr \<Rightarrow> error + nat" where
  "non_na_count df col =
     (if col \<in> set (columns df)
      then Inr (length (filter (\<lambda>r. \<not> isna (row_get r col NA)) (rows df)))
      else Inl KeyError)"

text \<open>
  The set \<^verbatim>\<open>bus_types\<close>, kept as a list without duplicates in the order the
  suffixes are first seen. Python leaves the iteration order of a set open; the
  theorems below speak of the set of files only.
\<close>

definition set_add :: "ustr \<Rightarrow> ustr list \<Rightarrow> ustr list" where
  "set_add x xs = (if x \<in> set xs then xs else xs @ [x])"

fun collect_bus_types :: "dataframe \<Rightarrow> ustr list \<Rightarrow> ustr list \<Rightarrow> error + ustr list" where
  "collect_bus_types df [] bus_types = Inr bus_types"
| "collect_bus_types df (col # cols) bus_types =
     (if contains (u ''_'') col then
        (let parts = py_split 95 col in
         if length parts \<ge> 2 then
           (let bus_suffix = last parts in
            case non_na_count df col of
              Inl e \<Rightarrow> Inl e
            | Inr cnt \<Rightarrow>
                if cnt > 0
                then collect_bus_types df cols (set_add bus_suffix bus_types)
                else collect_bus_types df cols bus_types)
         else collect_bus_types df cols bus_types)
      else collect_bus_types df cols bus_types)"

text \<open>
  The body of the loop over the bus types: the name of the file and the text
  written to it. An exception of the extraction leaves \<^verbatim>\<open>generate_dbc\<close> through
  its \<^verbatim>\<open>except\<close> clause, which returns \<^verbatim>\<open>False\<close>.
\<close>

definition bus_file_name :: "nat list \<Rightarrow> ustr \<Rightarrow> ustr \<Rightarrow> ustr" where
  "bus_file_name seps output_file bus_type =
     (let (base_name, ext) = splitext seps output_file
      in base_name @ u ''_'' @ bus_type @ u ''CAN'' @ ext)"

definition write_bus ::
  "runtime \<Rightarrow> nat list \<Rightarrow> dataframe \<Rightarrow> ustr list \<Rightarrow> ustr \<Rightarrow> bool \<Rightarrow> ustr
     \<Rightarrow> error + (ustr \<times> ustr)" where
  "write_bus rt seps df ncols output_file is_canfd bus_type =
     (let bus_output_file = bus_file_name seps output_file bus_type;
          header = generate_header is_canfd;
          nodes = extract_nodes rt df ncols;
          nodes_text = generate_nodes nodes
      in case extract_messages rt df of
           Inl e \<Rightarrow> Inl e
         | Inr messages \<Rightarrow>
             (case extract_signals rt df of
                Inl e \<Rightarrow> Inl e
              | Inr sigs \<Rightarrow>
                  Inr (bus_output_file,
                       header @ nodes_text @ generate_messages_and_signals messages sigs)))"

fun write_buses ::
  "runtime \<Rightarrow> nat list \<Rightarrow> dataframe \<Rightarrow> ustr list \<Rightarrow> ustr \<Rightarrow> bool \<Rightarrow> ustr list
     \<Rightarrow> error + (ustr \<times> ustr) list" where
  "write_buses rt seps df ncols output_file is_canfd [] = Inr []"
| "write_buses rt seps df ncols output_file is_canfd (bus_type # bus_types) =
     (case write_bus rt seps df ncols output_file is_canfd bus_type of
        Inl e \<Rightarrow> Inl e
      | Inr file \<Rightarrow>
          (case write_buses rt seps df ncols output_file is_canfd bus_types of
             Inl e \<Rightarrow> Inl e
           | Inr files \<Rightarrow> Inr (file # files)))"

text \<open>
  \<^verbatim>\<open>DBCGenerator.generate_dbc\<close>. \<open>Inr files\<close> is the return value \<^verbatim>\<open>True\<close> with
  the files written, each a name and its text; \<open>Inl\<close> is the return value
  \<^verbatim>\<open>False\<close> with its cause. Failures of the file system are not modelled.
\<close>

datatype failure = NotEnoughData | BusTypeNotFound | Raised error

definition generate_dbc ::
  "runtime \<Rightarrow> nat list \<Rightarrow> generator \<Rightarrow> ustr \<Rightarrow> ustr option \<Rightarrow> bool
     \<Rightarrow> failure + (ustr \<times> ustr) list" where
  "generate_dbc rt seps g output_file target_bus_type is_canfd =
     (case matrix_data g of
        None \<Rightarrow> Inl NotEnoughData
      | Some df \<Rightarrow>
          if node_columns g = [] then Inl NotEnoughData
          else
            (case collect_bus_types df (node_columns g) [] of
               Inl e \<Rightarrow> Inl (Raised e)
             | Inr found \<Rightarrow>
                 (let restricted = (case target_bus_type of None \<Rightarrow> False | Some t \<Rightarrow> t \<noteq> []);
                      wanted = (case target_bus_type of None \<Rightarrow> [] | Some t \<Rightarrow> t)
                  in if restricted \<and> wanted \<notin> set found then Inl BusTypeNotFound
                     else
                       (case write_buses rt seps df (node_columns g) output_file is_canfd
                               (if restricted then [wanted] else found) of
                          Inl e \<Rightarrow> Inl (Raised e)
                        | Inr files \<Rightarrow> Inr files))))"

section \<open>A runtime for ASCII sheets\<close>

text \<open>
  The runtime used to evaluate the model on concrete sheets. It gives CPython's
  builtins on ASCII text: case mapping and classification of the ASCII letters and
  digits, \<^verbatim>\<open>int(s, b)\<close> with its optional sign, its \<^verbatim>\<open>0x\<close> prefix for base 16
  and its single underscores between digits, \<^verbatim>\<open>float\<close> of a text that is an
  integer numeral, and \<^verbatim>\<open>str\<close> of a float with an integer value
  below \<open>10^16\<close> in size. The concrete sheets below stay inside this range.
\<close>

definition ascii_lower :: "ustr \<Rightarrow> ustr" where
  "ascii_lower s = map (\<lambda>c. if 65 \<le> c \<and> c \<le> 90 then c + 32 else c) s"

definition ascii_upper :: "ustr \<Rightarrow> ustr" where
  "ascii_upper s = map (\<lambda>c. if 97 \<le> c \<and> c \<le> 122 then c - 32 else c) s"

definition ascii_isalpha :: "ustr \<Rightarrow> bool" where
  "ascii_isalpha s \<longleftrightarrow>
     s \<noteq> [] \<and> list_all (\<lambda>c. (65 \<le> c \<and> c \<le> 90) \<or> (97 \<le> c \<and> c \<le> 122)) s"

definition ascii_isupper :: "ustr \<Rightarrow> bool" where
  "ascii_isupper s \<longleftrightarrow>
     list_ex (\<lambda>c. 65 \<le> c \<and> c \<le> 90) s \<and> list_all (\<lambda>c. c < 97 \<or> 122 < c) s"

definition ascii_isdigit :: "ustr \<Rightarrow> bool" where
  "ascii_isdigit s \<longleftrightarrow> s \<noteq> [] \<and> list_all (\<lambda>c. 48 \<le> c \<and> c \<le> 57) s"

definition digit_val :: "nat \<Rightarrow> nat option" where
  "digit_val c =
     (if 48 \<le> c \<and> c \<le> 57 then Some (c - 48)
      else if 97 \<le> c \<and> c \<le> 122 then Some (c - 87)
      else if 65 \<le> c \<and> c \<le> 90 then Some (c - 55)
      else None)"

fun parse_digits :: "nat \<Rightarrow> ustr \<Rightarrow> nat \<Rightarrow> bool \<Rightarrow> nat option" where
  "parse_digits b [] acc after_us = (if after_us then None else Some acc)"
| "parse_digits b (c # cs) acc after_us =
     (if c = 95 then (if after_us then None else parse_digits b cs acc True)
      else
        (case digit_val c of
           None \<Rightarrow> None
         | Some d \<Rightarrow> if d < b then parse_digits b cs (acc * b + d) False else None))"

definition parse_body :: "nat \<Rightarrow> ustr \<Rightarrow> nat option" where
  "parse_body b s =
     (case s of [] \<Rightarrow> None | c # cs \<Rightarrow> if c = 95 then None else parse_digits b s 0 False)"

definition ascii_space :: "nat \<Rightarrow> bool" where
  "ascii_space c \<longleftrightarrow> (9 \<le> c \<and> c \<le> 13) \<or> c = 32"

definition ascii_int :: "nat \<Rightarrow> ustr \<Rightarrow> int option" where
  "ascii_int b s =
     (let t = rev (dropWhile ascii_space (rev (dropWhile ascii_space s)));
          neg = startswith t (u ''-'');
          t1 = (if startswith t (u ''-'') \<or> startswith t (u ''+'') then drop 1 t else t);
          t2 = (if b = 16 \<and> (startswith t1 (u ''0x'') \<or> startswith t1 (u ''0X''))
                then (if startswith (drop 2 t1) (u ''_'') then drop 3 t1 else drop 2 t1)
                else t1)
      in map_option (\<lambda>n. if neg then - int n else int n) (parse_body b t2))"

definition ascii_float :: "ustr \<Rightarrow> pyfloat option" where
  "ascii_float s = map_option (\<lambda>n. Finite (of_int n)) (ascii_int 10 s)"

definition ascii_repr :: "pyfloat \<Rightarrow> ustr" where
  "ascii_repr f =
     (case f of
        Finite r \<Rightarrow> if r = of_int \<lfloor>r\<rfloor> then str_int \<lfloor>r\<rfloor> @ u ''.0'' else []
      | PosInf \<Rightarrow> u ''inf''
      | NegInf \<Rightarrow> u ''-inf''
      | NotANumber \<Rightarrow> u ''nan'')"

definition ascii_rt :: runtime where
  "ascii_rt =
     \<lparr>to_lower = ascii_lower, to_upper = ascii_upper, is_alpha = ascii_isalpha,
      is_upper = ascii_isupper, is_digit = ascii_isdigit, int_str = ascii_int,
      float_str = ascii_float, repr_float = ascii_repr\<rparr>"

text \<open>The separators of a POSIX path and of a Windows path.\<close>

definition posix_seps :: "nat list" where
  "posix_seps = [47]"

definition nt_seps :: "nat list" where
  "nt_seps = [92, 47]"

section \<open>The legacy generator\<close>

text \<open>
  \<^verbatim>\<open>dbc_generator.py\<close> reads the sheet through fixed column labels, each an English
  line and a Chinese line. \<^verbatim>\<open>row[label]\<close> raises KeyError when the sheet has no
  such column; every exception ends \<^verbatim>\<open>generate_dbc\<close> with \<^verbatim>\<open>False\<close>.
\<close>

definition col_msg_name :: ustr where
  "col_msg_name = u ''Msg Name'' @ [10, 25253, 25991, 21517, 31216]"

definition col_msg_id :: ustr where
  "col_msg_id = u ''Msg ID'' @ [10, 25253, 25991, 26631, 35782, 31526]"

definition col_msg_length :: ustr where
  "col_msg_length = u ''Msg Length (Byte)'' @ [10, 25253, 25991, 38271, 24230]"

definition col_cycle_time :: "ustr list" where
  "col_cycle_time =
     [u ''Msg Cycle Time (ms)'' @ [10, 25253, 25991, 21608, 26399, 26102, 38388],
      u ''Msg Cycle Time (ms)'' @ [10, 25253, 25991, 32, 21608, 26399, 26102, 38388]]"

definition col_signal_name :: ustr where
  "col_signal_name = u ''Signal Name'' @ [10, 20449, 21495, 21517, 31216]"

definition col_start_byte :: ustr where
  "col_start_byte = u ''Start Byte'' @ [10, 36215, 22987, 23383, 33410]"

definition col_start_bit :: ustr where
  "col_start_bit = u ''Start Bit'' @ [10, 36215, 22987, 20301]"

definition col_bit_length :: ustr where
  "col_bit_length = u ''Bit Length (Bit)'' @ [10, 20449, 21495, 38271, 24230]"

definition col_byte_order :: ustr where
  "col_byte_order = u ''Byte Order'' @ [10, 25490, 21015, 26684, 24335]"

definition col_date_type :: ustr where
  "col_date_type = u ''Date Type'' @ [10, 25968, 25454, 31867, 22411]"

definition col_factor :: "ustr list" where
  "col_factor =
     [u ''Factor'' @ [10, 27604, 20363, 22240, 23376],
      u ''Factor'' @ [10, 27604, 20363, 22240, 23376, 32]]"

definition col_offset :: "ustr list" where
  "col_offset =
     [u ''Offset'' @ [10, 20559, 31227, 37327],
      u ''Offset'' @ [10, 20559, 31227, 32, 37327]]"

definition col_min_phys :: "ustr list" where
  "col_min_phys = [u ''Signal Min. Value (phys)'' @ [10, 29289, 29702, 26368, 23567, 20540]]"

definition col_max_phys :: "ustr list" where
  "col_max_phys = [u ''Signal Max. Value (phys)'' @ [10, 29289, 29702, 26368, 22823, 20540]]"

definition col_unit :: "ustr list" where
  "col_unit = [u ''Unit'' @ [10, 21333, 20301]]"

definition bind_err :: "error + 'a \<Rightarrow> ('a \<Rightarrow> error + 'b) \<Rightarrow> error + 'b" where
  "bind_err m f = (case m of Inl e \<Rightarrow> Inl e | Inr x \<Rightarrow> f x)"

definition row_item :: "row \<Rightarrow> ustr \<Rightarrow> error + cell" where
  "row_item r col = (case r col of None \<Rightarrow> Inl KeyError | Some c \<Rightarrow> Inr c)"

text \<open>\<^verbatim>\<open>int(v)\<close> of a cell: a float is truncated, a text is parsed in base 10.\<close>

definition int_cell :: "runtime \<Rightarrow> cell \<Rightarrow> error + int" where
  "int_cell rt c =
     (case c of
        NA \<Rightarrow> Inl ValueError
      | CStr s \<Rightarrow> (case int_str rt 10 s of None \<Rightarrow> Inl ValueError | Some n \<Rightarrow> Inr n)
      | CInt n \<Rightarrow> Inr n
      | CFloat r \<Rightarrow> Inr (trunc_rat r))"

text \<open>\<^verbatim>\<open>_format_message_id\<close>: the id text in upper case, with \<^verbatim>\<open>0x\<close> put in front
  unless it already starts with \<^verbatim>\<open>0X\<close>.\<close>

definition format_message_id :: "runtime \<Rightarrow> cell \<Rightarrow> ustr" where
  "format_message_id rt message_id =
     (let s = to_upper rt (py_strip (str_cell rt message_id))
      in if startswith s (u ''0X'') then s else u ''0x'' @ s)"

text \<open>The numbers that reach \<^verbatim>\<open>format_num\<close>: Python ints and floats.\<close>

datatype pynum = PyInt int | PyFloat pyfloat

record legacy_signal =
  ls_msg_name :: ustr
  ls_sig_name :: ustr
  ls_start_bit :: int
  ls_signal_length :: int
  ls_byte_order :: ustr
  ls_is_signed :: nat
  ls_factor :: pyfloat
  ls_offset :: pyfloat
  ls_min_phys :: pyfloat
  ls_max_phys :: pyfloat
  ls_unit :: ustr
  ls_receivers :: "ustr list"

record legacy_message =
  lm_id :: ustr
  lm_dlc :: int
  lm_sender :: ustr
  lm_cycle_time :: int
  lm_signals :: "legacy_signal list"

text \<open>The cell of a row under a label, when the label is there and the cell is not
  missing: the test \<^verbatim>\<open>col in row and pd.notna(row[col])\<close>.\<close>

definition present :: "row \<Rightarrow> ustr \<Rightarrow> bool" where
  "present r col = (case r col of None \<Rightarrow> False | Some v \<Rightarrow> \<not> isna v)"

definition find_sender :: "ustr list \<Rightarrow> row \<Rightarrow> ustr" where
  "find_sender ncols r =
     (case find (\<lambda>col. present r col \<and> r col = Some (CStr (u ''Tx''))) ncols of
        None \<Rightarrow> u ''Unknown''
      | Some col \<Rightarrow> col)"

definition find_cycle_time :: "runtime \<Rightarrow> row \<Rightarrow> int" where
  "find_cycle_time rt r =
     (case find (present r) col_cycle_time of
        None \<Rightarrow> 0
      | Some col \<Rightarrow> (case int_cell rt (row_get r col NA) of Inl e \<Rightarrow> 0 | Inr n \<Rightarrow> n))"

text \<open>The text of a cell that names a message or a signal: stripped, and empty for a
  missing cell.\<close>

definition name_text :: "runtime \<Rightarrow> cell \<Rightarrow> ustr" where
  "name_text rt c = (if \<not> isna c then py_strip (str_cell rt c) else [])"

text \<open>\<^verbatim>\<open>_extract_message_info\<close>, one row and the loop.\<close>

definition legacy_message_row ::
  "runtime \<Rightarrow> ustr list \<Rightarrow> row \<Rightarrow> legacy_message pydict \<Rightarrow> error + legacy_message pydict" where
  "legacy_message_row rt ncols r messages =
     bind_err (row_item r col_msg_name) (\<lambda>name_cell.
       let msg_name = name_text rt name_cell in
       if msg_name \<noteq> [] \<and> msg_name \<notin> set (map fst messages) then
         bind_err (row_item r col_msg_id) (\<lambda>id_cell.
           let msg_id = format_message_id rt id_cell in
           bind_err (row_item r col_msg_length) (\<lambda>len_cell.
             bind_err (if \<not> isna len_cell then int_cell rt len_cell else Inr 8) (\<lambda>msg_len.
               Inr (messages @
                    [(msg_name,
                      \<lparr>lm_id = msg_id, lm_dlc = msg_len, lm_sender = find_sender ncols r,
                       lm_cycle_time = find_cycle_time rt r, lm_signals = []\<rparr>)]))))
       else Inr messages)"

fun legacy_message_rows ::
  "runtime \<Rightarrow> ustr list \<Rightarrow> row list \<Rightarrow> legacy_message pydict \<Rightarrow> error + legacy_message pydict" where
  "legacy_message_rows rt ncols [] messages = Inr messages"
| "legacy_message_rows rt ncols (r # rs) messages =
     bind_err (legacy_message_row rt ncols r messages) (legacy_message_rows rt ncols rs)"

definition extract_message_info ::
  "runtime \<Rightarrow> ustr list \<Rightarrow> dataframe \<Rightarrow> error + legacy_message pydict" where
  "extract_message_info rt ncols df = legacy_message_rows rt ncols (rows df) []"

text \<open>\<^verbatim>\<open>get_column_value\<close> with \<^verbatim>\<open>float\<close> and with \<^verbatim>\<open>str\<close> as the conversion.\<close>

definition get_float_value :: "runtime \<Rightarrow> row \<Rightarrow> ustr list \<Rightarrow> pyfloat \<Rightarrow> pyfloat" where
  "get_float_value rt r col_names dflt =
     (case find (present r) col_names of
        None \<Rightarrow> dflt
      | Some col \<Rightarrow> (case float_of rt (row_get r col NA) of None \<Rightarrow> dflt | Some f \<Rightarrow> f))"

definition get_str_value :: "runtime \<Rightarrow> row \<Rightarrow> ustr list \<Rightarrow> ustr \<Rightarrow> ustr" where
  "get_str_value rt r col_names dflt =
     (case find (present r) col_names of
        None \<Rightarrow> dflt
      | Some col \<Rightarrow> str_cell rt (row_get r col NA))"

text \<open>\<^verbatim>\<open>_extract_signal_info\<close>: the signal of one row, one row of the loop with the
  name of the current message as its state, and the loop.\<close>

definition int_or :: "runtime \<Rightarrow> cell \<Rightarrow> int \<Rightarrow> error + int" where
  "int_or rt c dflt = (if \<not> isna c then int_cell rt c else Inr dflt)"

definition legacy_make_signal ::
  "runtime \<Rightarrow> ustr list \<Rightarrow> row \<Rightarrow> ustr \<Rightarrow> ustr \<Rightarrow> error + legacy_signal" where
  "legacy_make_signal rt ncols r current_msg_name signame =
     bind_err (row_item r col_start_byte) (\<lambda>sb_cell.
     bind_err (int_or rt sb_cell 0) (\<lambda>start_byte.
     bind_err (row_item r col_start_bit) (\<lambda>bit_cell.
     bind_err (int_or rt bit_cell 0) (\<lambda>start_bit.
     let intel_start_bit = start_byte * 8 + start_bit in
     bind_err (row_item r col_bit_length) (\<lambda>len_cell.
     bind_err (int_or rt len_cell 8) (\<lambda>sig_len.
     bind_err (row_item r col_byte_order) (\<lambda>bo_cell.
     let byte_order = (if \<not> isna bo_cell then py_strip (str_cell rt bo_cell) else u ''Intel'') in
     bind_err (row_item r col_date_type) (\<lambda>vt_cell.
     let value_type = (if \<not> isna vt_cell then py_strip (str_cell rt vt_cell)
                       else u ''Unsigned'');
         is_signed = (if to_lower rt value_type = u ''signed'' then 1 else 0)
     in Inr \<lparr>ls_msg_name = current_msg_name,
              ls_sig_name = signame,
              ls_start_bit = intel_start_bit,
              ls_signal_length = sig_len,
              ls_byte_order = byte_order,
              ls_is_signed = is_signed,
              ls_factor = get_float_value rt r col_factor (Finite 1),
              ls_offset = get_float_value rt r col_offset (Finite 0),
              ls_min_phys = get_float_value rt r col_min_phys (Finite 0),
              ls_max_phys = get_float_value rt r col_max_phys (Finite 0),
              ls_unit = py_strip (get_str_value rt r col_unit []),
              ls_receivers =
                filter (\<lambda>col. present r col \<and> r col = Some (CStr (u ''Rx''))) ncols\<rparr>))))))))"

definition legacy_signal_row ::
  "runtime \<Rightarrow> ustr list \<Rightarrow> row \<Rightarrow> ustr \<times> legacy_signal list
     \<Rightarrow> error + (ustr \<times> legacy_signal list)" where
  "legacy_signal_row rt ncols r st =
     bind_err (row_item r col_msg_name) (\<lambda>name_cell.
       let msg_name = name_text rt name_cell;
           current_msg_name = (if msg_name \<noteq> [] then msg_name else fst st)
       in bind_err (row_item r col_signal_name) (\<lambda>sig_cell.
            let signame = name_text rt sig_cell in
            if current_msg_name \<noteq> [] \<and> signame \<noteq> [] then
              bind_err (legacy_make_signal rt ncols r current_msg_name signame) (\<lambda>sg.
                Inr (current_msg_name, snd st @ [sg]))
            else Inr (current_msg_name, snd st)))"

fun legacy_signal_rows ::
  "runtime \<Rightarrow> ustr list \<Rightarrow> row list \<Rightarrow> ustr \<times> legacy_signal list
     \<Rightarrow> error + (ustr \<times> legacy_signal list)" where
  "legacy_signal_rows rt ncols [] st = Inr st"
| "legacy_signal_rows rt ncols (r # rs) st =
     bind_err (legacy_signal_row rt ncols r st) (legacy_signal_rows rt ncols rs)"

definition extract_signal_info ::
  "runtime \<Rightarrow> ustr list \<Rightarrow> dataframe \<Rightarrow> error + legacy_signal list" where
  "extract_signal_info rt ncols df =
     bind_err (legacy_signal_rows rt ncols (rows df) ([], [])) (\<lambda>st. Inr (snd st))"

text \<open>
  \<^verbatim>\<open>format_num\<close>, the local function of \<^verbatim>\<open>generate_dbc\<close>. The format
  \<^verbatim>\<open>f"{num:.3f}"\<close> rounds the exact value of the float to three decimals, a tie
  going to the even neighbour, and prints the sign, the integer part, a dot and
  three digits. \<^verbatim>\<open>int(num)\<close> raises on an infinity and on not-a-number.
\<close>

definition round_half_even :: "rat \<Rightarrow> int" where
  "round_half_even q =
     (let f = \<lfloor>q\<rfloor>; d = q - of_int f
      in if d < 1 / 2 then f
         else if 1 / 2 < d then f + 1
         else if even f then f else f + 1)"

definition fmt3 :: "rat \<Rightarrow> ustr" where
  "fmt3 r =
     (let n = nat (round_half_even (\<bar>r\<bar> * 1000))
      in (if r < 0 then u ''-'' else []) @ str_int (int (n div 1000)) @ u ''.'' @
         map dec_char [n mod 1000 div 100, n mod 100 div 10, n mod 10])"

definition rstrip_char :: "nat \<Rightarrow> ustr \<Rightarrow> ustr" where
  "rstrip_char c s = rev (dropWhile (\<lambda>x. x = c) (rev s))"

definition format_num :: "pynum \<Rightarrow> error + ustr" where
  "format_num num =
     (case num of
        PyInt n \<Rightarrow> Inr (str_int n)
      | PyFloat f \<Rightarrow>
          (case f of
             Finite r \<Rightarrow>
               if r = of_int (trunc_rat r) then Inr (str_int (trunc_rat r))
               else Inr (rstrip_char 46 (rstrip_char 48 (fmt3 r)))
           | PosInf \<Rightarrow> Inl OverflowError
           | NegInf \<Rightarrow> Inl OverflowError
           | NotANumber \<Rightarrow> Inl ValueError))"

text \<open>
  The first steps of the legacy \<^verbatim>\<open>generate_dbc\<close>: each signal is appended to the
  message of its name, and a given node type keeps the messages it sends or
  receives.
\<close>

definition assign_signal :: "legacy_message pydict \<Rightarrow> legacy_signal \<Rightarrow> legacy_message pydict" where
  "assign_signal messages sg =
     map (\<lambda>(k, m). if k = ls_msg_name sg then (k, m\<lparr>lm_signals := lm_signals m @ [sg]\<rparr>)
                     else (k, m)) messages"

definition assign_signals ::
  "legacy_signal list \<Rightarrow> legacy_message pydict \<Rightarrow> legacy_message pydict" where
  "assign_signals sgs messages = foldl assign_signal messages sgs"

definition filter_message :: "ustr \<Rightarrow> ustr \<times> legacy_message \<Rightarrow> (ustr \<times> legacy_message) list" where
  "filter_message node_type km =
     (let is_sender = (lm_sender (snd km) = node_type);
          filtered_signals =
            filter (\<lambda>sg. node_type \<in> set (ls_receivers sg) \<or> is_sender) (lm_signals (snd km));
          msg_related = (is_sender \<or> filtered_signals \<noteq> [])
      in if msg_related \<and> filtered_signals \<noteq> []
         then [(fst km, (snd km)\<lparr>lm_signals := filtered_signals\<rparr>)] else [])"

definition filter_messages ::
  "ustr option \<Rightarrow> legacy_message pydict \<Rightarrow> legacy_message pydict" where
  "filter_messages node_type messages =
     (case node_type of
        None \<Rightarrow> messages
      | Some nt \<Rightarrow> if nt \<noteq> [] then concat (map (filter_message nt) messages) else messages)"

text \<open>The SG_ line of a signal and the block of a message, as the legacy
  \<^verbatim>\<open>generate_dbc\<close> appends them to the text of the file.\<close>

definition legacy_receivers :: "ustr option \<Rightarrow> ustr list \<Rightarrow> ustr list" where
  "legacy_receivers node_type available_node_types =
     (let dflt = (if available_node_types \<noteq> [] then available_node_types else [u ''PCU_P''])
      in case node_type of
           None \<Rightarrow> dflt
         | Some nt \<Rightarrow> if nt \<noteq> [] then [nt] else dflt)"

definition legacy_sg_line ::
  "runtime \<Rightarrow> ustr option \<Rightarrow> ustr list \<Rightarrow> legacy_signal \<Rightarrow> error + ustr" where
  "legacy_sg_line rt node_type available_node_types sg =
     (let byte_order_str = to_lower rt (ls_byte_order sg);
          byte_order_val = (if contains (u ''intel'') byte_order_str then u ''1'' else u ''0'');
          value_type = (if ls_is_signed sg = 1 then u ''-'' else u ''+'');
          unit = ls_unit sg;
          receivers = legacy_receivers node_type available_node_types
      in bind_err (format_num (PyInt (ls_start_bit sg))) (\<lambda>start.
         bind_err (format_num (PyInt (ls_signal_length sg))) (\<lambda>len.
         bind_err (format_num (PyFloat (ls_factor sg))) (\<lambda>factor.
         bind_err (format_num (PyFloat (ls_offset sg))) (\<lambda>offset.
         bind_err (format_num (PyFloat (ls_min_phys sg))) (\<lambda>minp.
         bind_err (format_num (PyFloat (ls_max_phys sg))) (\<lambda>maxp.
           Inr (u ''SG_ '' @ ls_sig_name sg @ u '' : '' @ start @ u ''|'' @ len @ u ''@'' @
                byte_order_val @ value_type @ u '' ('' @ factor @ u '','' @ offset @
                u '') ['' @ minp @ u ''|'' @ maxp @ u ''] '' @ [34] @ unit @ [34] @ u '' '' @
                py_join (u '' '') receivers @ [10]))))))))"

fun legacy_sg_lines ::
  "runtime \<Rightarrow> ustr option \<Rightarrow> ustr list \<Rightarrow> legacy_signal list \<Rightarrow> error + ustr" where
  "legacy_sg_lines rt node_type avail [] = Inr []"
| "legacy_sg_lines rt node_type avail (sg # sgs) =
     bind_err (legacy_sg_line rt node_type avail sg) (\<lambda>l.
     bind_err (legacy_sg_lines rt node_type avail sgs) (\<lambda>ls. Inr (l @ ls)))"

definition legacy_sender_text :: "legacy_message \<Rightarrow> ustr" where
  "legacy_sender_text m = (if lm_sender m \<noteq> u ''Unknown'' then lm_sender m else vector_xxx)"

definition legacy_bo_line :: "int \<Rightarrow> ustr \<Rightarrow> legacy_message \<Rightarrow> ustr" where
  "legacy_bo_line msg_id_dec name m =
     u ''BO_ '' @ str_int msg_id_dec @ u '' '' @ name @ u '': '' @ str_int (lm_dlc m) @
     u '' '' @ legacy_sender_text m @ [10]"

definition legacy_message_text ::
  "runtime \<Rightarrow> ustr option \<Rightarrow> ustr list \<Rightarrow> ustr \<times> legacy_message \<Rightarrow> error + ustr" where
  "legacy_message_text rt node_type avail km =
     (case int_str rt 16 (lm_id (snd km)) of
        None \<Rightarrow> Inl ValueError
      | Some msg_id_dec \<Rightarrow>
          bind_err (legacy_sg_lines rt node_type avail (lm_signals (snd km))) (\<lambda>sg_text.
            Inr (legacy_bo_line msg_id_dec (fst km) (snd km) @ sg_text @ [10, 10])))"

fun legacy_messages_text ::
  "runtime \<Rightarrow> ustr option \<Rightarrow> ustr list \<Rightarrow> legacy_message pydict \<Rightarrow> error + ustr" where
  "legacy_messages_text rt node_type avail [] = Inr []"
| "legacy_messages_text rt node_type avail (km # kms) =
     bind_err (legacy_message_text rt node_type avail km) (\<lambda>t.
     bind_err (legacy_messages_text rt node_type avail kms) (\<lambda>ts. Inr (t @ ts)))"

text \<open>
  The message definitions of the legacy file, from the sheet: extraction,
  assignment of the signals, the filter, and the text. The fixed attribute text
  that the source puts around them does not depend on the sheet.
\<close>

definition legacy_message_section ::
  "runtime \<Rightarrow> ustr list \<Rightarrow> ustr option \<Rightarrow> dataframe \<Rightarrow> error + ustr" where
  "legacy_message_section rt ncols node_type df =
     bind_err (extract_message_info rt ncols df) (\<lambda>messages.
     bind_err (extract_signal_info rt ncols df) (\<lambda>sgs.
       legacy_messages_text rt node_type ncols
         (filter_messages node_type (assign_signals sgs messages))))"

text \<open>
  The last step before the legacy file is written: line ends become LF, then
  \<^verbatim>\<open>ensure_ascii\<close> keeps the ASCII code points, writes \<^verbatim>\<open>Ohm\<close> for the Omega and
  removes every other code point.
\<close>

fun replace_crlf :: "ustr \<Rightarrow> ustr" where
  "replace_crlf (a # b # cs) =
     (if a = 13 \<and> b = 10 then 10 # replace_crlf cs else a # replace_crlf (b # cs))"
| "replace_crlf cs = cs"

definition replace_cr :: "ustr \<Rightarrow> ustr" where
  "replace_cr s = map (\<lambda>c. if c = 13 then 10 else c) s"

fun ensure_ascii :: "ustr \<Rightarrow> ustr" where
  "ensure_ascii [] = []"
| "ensure_ascii (c # cs) =
     (if c < 128 then c # ensure_ascii cs
      else if c = 937 then u ''Ohm'' @ ensure_ascii cs
      else ensure_ascii cs)"

definition postprocess :: "ustr \<Rightarrow> ustr" where
  "postprocess dbc_content = ensure_ascii (replace_cr (replace_crlf dbc_content))"

text \<open>
  The name of the legacy file: \<^verbatim>\<open>generate_dbc\<close> appends \<^verbatim>\<open>.dbc\<close> to the output
  path unless the path, in lower case, already ends with it.
\<close>

definition legacy_output_file :: "runtime \<Rightarrow> ustr \<Rightarrow> ustr" where
  "legacy_output_file rt output_file =
     (if \<not> endswith (to_lower rt output_file) (u ''.dbc'') then output_file @ u ''.dbc''
      else output_file)"

section \<open>Reading the text of a number\<close>


section \<open>Node columns with data\<close>

text \<open>
  A column has data when some row has a cell under it that is not missing. The
  live suffixes of a list of node columns are the suffixes, after the last
  underscore, of those columns that have an underscore and have data.
\<close>

definition has_data :: "dataframe \<Rightarrow> ustr \<Rightarrow> bool" where
  "has_data df col = list_ex (\<lambda>r. \<not> isna (row_get r col NA)) (rows df)"

definition live_suffixes :: "dataframe \<Rightarrow> ustr list \<Rightarrow> ustr set" where
  "live_suffixes df ncols =
     set (map (\<lambda>col. last (py_split 95 col))
            (filter (\<lambda>col. contains (u ''_'') col \<and> has_data df col) ncols))"

section \<open>Fields without a value\<close>

text \<open>
  A field of a signal row has no value when the search found no column for it, or
  when the cell of the row under its column is missing.
\<close>

definition unmapped_or_empty :: "row \<Rightarrow> ustr option \<Rightarrow> bool" where
  "unmapped_or_empty r col = (case col of None \<Rightarrow> True | Some c \<Rightarrow> isna (row_get r c NA))"

section \<open>Concrete sheets\<close>

text \<open>
  A row of a sheet with the given labels: the listed cells, and a missing cell
  under every other label.
\<close>

definition mk_row :: "ustr list \<Rightarrow> (ustr \<times> cell) list \<Rightarrow> row" where
  "mk_row cols kvs =
     (\<lambda>c. if c \<in> set cols then Some (case map_of kvs c of None \<Rightarrow> NA | Some v \<Rightarrow> v)
          else None)"

text \<open>A sheet for the core generator: one message with one signal, two node
  columns.\<close>

definition ex_columns :: "ustr list" where
  "ex_columns =
     [u ''Msg ID'', u ''Msg Name'', u ''Signal Name'', u ''Start Byte'', u ''Start Bit'',
      u ''Byte Order'', u ''Unit'', u ''VCU_P'', u ''VCU_E'']"

definition ex_header_row :: row where
  "ex_header_row =
     mk_row ex_columns
       [(u ''Msg ID'', CStr (u ''0x100'')), (u ''Msg Name'', CStr (u ''EngineStatus'')),
        (u ''VCU_P'', CStr (u ''Tx''))]"

definition ex_signal_row :: row where
  "ex_signal_row =
     mk_row ex_columns
       [(u ''Signal Name'', CStr (u ''EngineSpeed'')), (u ''Start Byte'', CInt 2),
        (u ''Start Bit'', CInt 3), (u ''Byte Order'', CStr (u ''Motorola'')),
        (u ''Unit'', CStr [937]), (u ''VCU_E'', CStr (u ''Rx''))]"

definition ex_intel_row :: row where
  "ex_intel_row =
     mk_row ex_columns
       [(u ''Signal Name'', CStr (u ''EngineSpeed'')), (u ''Start Byte'', CInt 2),
        (u ''Start Bit'', CInt 3), (u ''Byte Order'', CStr (u ''Intel''))]"

definition ex_blank_row :: row where
  "ex_blank_row = mk_row ex_columns [(u ''Signal Name'', CStr (u ''S''))]"

definition ex_bad_id_row :: row where
  "ex_bad_id_row =
     mk_row ex_columns [(u ''Msg ID'', CStr (u ''xyz'')), (u ''Msg Name'', CStr (u ''Broken''))]"

definition ex_sheet :: dataframe where
  "ex_sheet = \<lparr>columns = ex_columns, rows = [ex_header_row, ex_signal_row]\<rparr>"

definition ex_bad_sheet :: dataframe where
  "ex_bad_sheet =
     \<lparr>columns = ex_columns, rows = [ex_header_row, ex_bad_id_row, ex_signal_row]\<rparr>"

definition ex_generator :: generator where
  "ex_generator =
     \<lparr>matrix_data = Some ex_sheet,
      node_columns = extract_node_columns ascii_rt (columns ex_sheet)\<rparr>"

text \<open>The sheet \<open>ex_sheet\<close> with the id of the message written \<^verbatim>\<open>0256\<close>.\<close>

definition ex_padded_header_row :: row where
  "ex_padded_header_row =
     mk_row ex_columns
       [(u ''Msg ID'', CStr (u ''0256'')), (u ''Msg Name'', CStr (u ''EngineStatus'')),
        (u ''VCU_P'', CStr (u ''Tx''))]"

definition ex_padded_sheet :: dataframe where
  "ex_padded_sheet = \<lparr>columns = ex_columns, rows = [ex_padded_header_row, ex_signal_row]\<rparr>"

text \<open>A sheet with a start byte column and no start bit column.\<close>

definition ex_byte_columns :: "ustr list" where
  "ex_byte_columns = [u ''Msg ID'', u ''Signal Name'', u ''Start Byte'']"

definition ex_byte_row :: row where
  "ex_byte_row =
     mk_row ex_byte_columns
       [(u ''Signal Name'', CStr (u ''EngineSpeed'')), (u ''Start Byte'', CInt 2)]"

definition ex_byte_sheet :: dataframe where
  "ex_byte_sheet =
     \<lparr>columns = ex_byte_columns,
      rows = [mk_row ex_byte_columns [(u ''Msg ID'', CStr (u ''0x100''))], ex_byte_row]\<rparr>"

text \<open>A sheet for the legacy generator, with the id of the message given as the
  cell \<open>idc\<close>.\<close>

definition legacy_columns :: "ustr list" where
  "legacy_columns =
     [col_msg_name, col_msg_id, col_msg_length, col_signal_name, col_start_byte,
      col_start_bit, col_bit_length, col_byte_order, col_date_type, u ''VCU_P'', u ''VCU_E'']"

definition legacy_header_row :: "cell \<Rightarrow> row" where
  "legacy_header_row idc =
     mk_row legacy_columns
       [(col_msg_name, CStr (u ''EngineStatus'')), (col_msg_id, idc),
        (col_msg_length, CInt 8), (u ''VCU_P'', CStr (u ''Tx''))]"

definition legacy_signal_row0 :: "ustr \<Rightarrow> row" where
  "legacy_signal_row0 order =
     mk_row legacy_columns
       [(col_signal_name, CStr (u ''EngineSpeed'')), (col_start_byte, CInt 2),
        (col_start_bit, CInt 3), (col_bit_length, CInt 16),
        (col_byte_order, CStr order), (u ''VCU_E'', CStr (u ''Rx''))]"

definition legacy_sheet :: "cell \<Rightarrow> dataframe" where
  "legacy_sheet idc =
     \<lparr>columns = legacy_columns,
      rows = [legacy_header_row idc, legacy_signal_row0 (u ''Motorola'')]\<rparr>"

text \<open>The text the core generator writes for \<open>ex_sheet\<close>, the same for each bus.\<close>

definition ex_text :: ustr where
  "ex_text =
     generate_header False @ u ''BU_: E P Vector__XXX'' @ [10, 10, 10] @
     u ''BO_ 256 EngineStatus: 8 Vector__XXX'' @ [10, 10] @
     u '' SG_ EngineSpeed : 19|8@1+ (1.0,0.0) [0|0] '' @ [34, 937, 34] @
     u '' Vector__XXX'' @ [10, 10]"

text \<open>The signal the core generator makes from a row without values.\<close>

definition default_signal :: "ustr \<Rightarrow> signal" where
  "default_signal nm =
     \<lparr>sig_name = nm, sig_start_bit = u ''0'', sig_length = u ''8'',
      sig_byte_order = u ''Motorola'', sig_value_type = u ''Unsigned'',
      sig_factor = u ''1.0'', sig_offset = u ''0.0'', sig_min = u ''0'', sig_max = u ''0'',
      sig_unit = [], sig_receiver = u ''Vector__XXX''\<rparr>"

section \<open>Rules for evaluating the model on concrete input\<close>

lemmas str_defs = u_def startswith_def endswith_def py_strip_def is_space_def str_int_def
  hex_upper_def dec_char_def hex_char_def digits_of.simps

lemmas ascii_defs = ascii_rt_def ascii_lower_def ascii_upper_def ascii_isalpha_def
  ascii_isupper_def ascii_isdigit_def digit_val_def parse_body_def ascii_space_def
  ascii_int_def ascii_float_def ascii_repr_def float_of_def

lemmas sheet_defs = mk_row_def ex_columns_def ex_header_row_def ex_signal_row_def
  ex_intel_row_def ex_blank_row_def ex_bad_id_row_def ex_sheet_def ex_bad_sheet_def ex_generator_def
  ex_byte_columns_def ex_byte_row_def ex_byte_sheet_def row_get_def row_get_opt_def isna_def str_cell_def

lemmas msg_defs = extract_messages_def message_row_def parse_message_id_def extract_dlc_def
  is_message_id_col_def is_message_name_col_def is_dlc_col_def vector_xxx_def Let_def

lemmas sig_defs = extract_signals_def signal_row_def make_signal_def extract_byte_order_def
  extract_length_def extract_value_type_def extract_start_bit_def extract_float_text_def
  extract_unit_def parse_current_id_def append_signal_def find_sigcols_def sigcols_step_def
  no_sigcols_def is_signal_name_col_def int_float_def int_of_pyfloat_def trunc_rat_def
  str_float_def is_message_id_col_def vector_xxx_def Let_def

lemmas gen_defs = write_bus_def bus_file_name_def splitext_def rfind_def
  non_na_count_def set_add_def generate_header_def extract_nodes_def generate_nodes_def
  is_controller_col_def generate_messages_and_signals_def message_block_def bo_line_def
  sg_line_def extract_node_columns_def is_node_column_def posix_seps_def nt_seps_def

lemmas legacy_defs = legacy_message_section_def extract_message_info_def legacy_message_row_def
  bind_err_def row_item_def name_text_def format_message_id_def int_cell_def find_sender_def
  present_def find_cycle_time_def extract_signal_info_def legacy_signal_row_def
  legacy_make_signal_def int_or_def get_float_value_def get_str_value_def assign_signals_def
  assign_signal_def filter_messages_def legacy_receivers_def legacy_sg_line_def format_num_def
  legacy_sender_text_def legacy_bo_line_def legacy_message_text_def trunc_rat_def
  vector_xxx_def Let_def

lemmas legacy_sheet_defs = legacy_columns_def legacy_header_row_def legacy_signal_row0_def
  legacy_sheet_def mk_row_def row_get_def isna_def str_cell_def
  col_msg_name_def col_msg_id_def col_msg_length_def col_cycle_time_def col_signal_name_def
  col_start_byte_def col_start_bit_def col_bit_length_def col_byte_order_def col_date_type_def
  col_factor_def col_offset_def col_min_phys_def col_max_phys_def col_unit_def

section \<open>Facts about the builtins\<close>






lemma trunc_rat_of_int: "trunc_rat (of_int n) = n"
  by (simp add: trunc_rat_def)




section \<open>Numeric formatting\<close>

lemma round_half_even_near: "\<bar>of_int (round_half_even q) - q\<bar> \<le> 1 / 2"
  unfolding round_half_even_def Let_def by (auto simp: abs_if) linarith+








section \<open>Node indicator columns: the two rules\<close>

lemma contains_single: "contains [c] s \<longleftrightarrow> c \<in> set s"
  by (induction s) (auto simp: startswith_def)

lemma py_split_nonempty: "py_split c s \<noteq> []"
  by (induction s) (auto split: list.splits)

lemma py_join_Cons_head: "py_join sep ((x # p) # ps) = x # py_join sep (p # ps)"
  by (cases ps) simp_all

lemma py_split_join: "py_join [c] (py_split c s) = s"
proof (induction s)
  case Nil
  show ?case by simp
next
  case (Cons x xs)
  obtain p ps where sp: "py_split c xs = p # ps"
    using py_split_nonempty [of c xs] by (cases "py_split c xs") auto
  with Cons show ?case by (auto simp: py_join_Cons_head)
qed

lemma last_py_split_no_sep: "c \<notin> set (last (py_split c s))"
proof (induction s)
  case Nil
  show ?case by simp
next
  case (Cons x xs)
  obtain p ps where sp: "py_split c xs = p # ps"
    using py_split_nonempty [of c xs] by (cases "py_split c xs") auto
  with Cons show ?case by (auto split: if_splits)
qed

lemma length_py_split: "length (py_split c s) = Suc (length (filter (\<lambda>x. x = c) s))"
proof (induction s)
  case Nil
  show ?case by simp
next
  case (Cons x xs)
  obtain p ps where sp: "py_split c xs = p # ps"
    using py_split_nonempty [of c xs] by (cases "py_split c xs") auto
  with Cons show ?case by auto
qed

lemma py_join_snoc: "ps \<noteq> [] \<Longrightarrow> py_join sep (ps @ [p]) = py_join sep ps @ sep @ p"
  by (induction sep ps rule: py_join.induct) auto

lemma split_at_last_sep:
  assumes "c \<in> set s"
  shows "s = py_join [c] (butlast (py_split c s)) @ [c] @ last (py_split c s)"
proof -
  have "filter (\<lambda>x. x = c) s \<noteq> []" using assms by (auto simp: filter_empty_conv)
  then have "2 \<le> length (py_split c s)" by (cases "filter (\<lambda>x. x = c) s") (auto simp: length_py_split)
  then have ne: "butlast (py_split c s) \<noteq> []" by (cases "py_split c s" rule: rev_cases) auto
  have "py_split c s = butlast (py_split c s) @ [last (py_split c s)]"
    using py_split_nonempty by simp
  then have "py_join [c] (py_split c s) =
      py_join [c] (butlast (py_split c s)) @ [c] @ last (py_split c s)"
    using py_join_snoc [OF ne] by metis
  then show ?thesis by (simp add: py_split_join)
qed

lemma legacy_node_rule:
  "legacy_is_node_column rt l \<longleftrightarrow>
     95 \<in> set l \<and>
     is_alpha rt (last (py_split 95 l)) \<and> is_upper rt (last (py_split 95 l)) \<and>
     \<not> startswith (py_join [95] (butlast (py_split 95 l))) (u ''LV'') \<and>
     \<not> endswith l (u ''EV'')"
proof -
  have us: "u ''_'' = [95]" by (simp add: u_def)
  show ?thesis by (auto simp: legacy_is_node_column_def us contains_single Let_def)
qed

text \<open>
  Claim C5 says that a label is a node indicator column exactly when it has an
  underscore, its suffix is alphabetic and upper-case, its prefix does not start
  with \<^verbatim>\<open>LV\<close> and the full label does not end with \<^verbatim>\<open>EV\<close>. The legacy rule
  is that rule (\<open>legacy_node_rule\<close>). The core rule tests the prefix, not the
  label, for the ending \<^verbatim>\<open>EV\<close>: it takes \<^verbatim>\<open>BMS_EV\<close>, which ends with
  \<^verbatim>\<open>EV\<close>, as a node column, and rejects \<^verbatim>\<open>HEV_P\<close>, which does not.
\<close>

theorem core_node_rule_checks_prefix:
  "is_node_column ascii_rt (u ''BMS_EV'') \<and>
   \<not> is_node_column ascii_rt (u ''HEV_P'') \<and>
   \<not> legacy_is_node_column ascii_rt (u ''BMS_EV'') \<and>
   legacy_is_node_column ascii_rt (u ''HEV_P'') \<and>
   extract_node_columns ascii_rt [u ''LV1_EV'', u ''VCU_P'', u ''BMS_EV'', u ''HEV_P''] =
     [u ''VCU_P'', u ''BMS_EV'']"
  by (simp add: is_node_column_def legacy_is_node_column_def extract_node_columns_def
        str_defs ascii_defs Let_def)

section \<open>The example sheet in the core generator\<close>

lemma ex_messages:
  "extract_messages ascii_rt ex_sheet =
     Inr [(u ''256'', \<lparr>msg_id = u ''256'', msg_hex_id = u ''0x100'',
           msg_name = u ''EngineStatus'', msg_dlc = u ''8'',
           msg_sender = u ''Vector__XXX'', msg_signals = []\<rparr>)]"
  by (simp add: msg_defs sheet_defs str_defs ascii_defs)

lemma ex_signals:
  "extract_signals ascii_rt ex_sheet =
     Inr [(u ''256'', [\<lparr>sig_name = u ''EngineSpeed'', sig_start_bit = u ''19'',
           sig_length = u ''8'', sig_byte_order = u ''Motorola'',
           sig_value_type = u ''Unsigned'', sig_factor = u ''1.0'', sig_offset = u ''0.0'',
           sig_min = u ''0'', sig_max = u ''0'', sig_unit = [937],
           sig_receiver = u ''Vector__XXX''\<rparr>])]"
  by (simp add: sig_defs sheet_defs str_defs ascii_defs)

lemma ex_node_columns:
  "extract_node_columns ascii_rt (columns ex_sheet) = [u ''VCU_P'', u ''VCU_E'']"
  by (simp add: gen_defs sheet_defs str_defs ascii_defs Let_def)

lemma ex_bus_types:
  "collect_bus_types ex_sheet [u ''VCU_P'', u ''VCU_E''] [] = Inr [u ''P'', u ''E'']"
  by (simp add: gen_defs sheet_defs str_defs Let_def)

lemma ex_nodes: "extract_nodes ascii_rt ex_sheet [u ''VCU_P'', u ''VCU_E''] = [u ''E'', u ''P'']"
  by (simp add: gen_defs sheet_defs str_defs Let_def)

lemma ex_write_bus:
  "write_bus ascii_rt seps ex_sheet [u ''VCU_P'', u ''VCU_E''] out False b =
     Inr (bus_file_name seps out b, ex_text)"
  unfolding write_bus_def Let_def ex_messages ex_signals ex_nodes
  by (simp add: ex_text_def generate_nodes_def generate_messages_and_signals_def
        message_block_def bo_line_def sg_line_def vector_xxx_def str_defs)

lemma ex_run:
  "generate_dbc ascii_rt seps ex_generator out None False =
     Inr [(bus_file_name seps out (u ''P''), ex_text), (bus_file_name seps out (u ''E''), ex_text)]"
  unfolding generate_dbc_def
  by (simp add: ex_generator_def ex_node_columns ex_bus_types ex_write_bus
        del: collect_bus_types.simps)

lemma ex_names:
  "bus_file_name posix_seps (u ''out.dbc'') (u ''P'') = u ''out_PCAN.dbc''"
  "bus_file_name posix_seps (u ''out.dbc'') (u ''E'') = u ''out_ECAN.dbc''"
  "bus_file_name posix_seps (u ''out.txt'') (u ''P'') = u ''out_PCAN.txt''"
  "bus_file_name posix_seps (u ''out.txt'') (u ''E'') = u ''out_ECAN.txt''"
  by (simp_all add: bus_file_name_def splitext_def rfind_def posix_seps_def u_def)

section \<open>The example sheet in the legacy generator\<close>

lemma legacy_decimal_id:
  "legacy_message_section ascii_rt [u ''VCU_E'', u ''VCU_P''] None (legacy_sheet (CStr (u ''256''))) =
     Inr (u ''BO_ 598 EngineStatus: 8 VCU_P'' @ [10] @
          u ''SG_ EngineSpeed : 19|16@0+ (1,0) [0|0] '' @ [34, 34] @ u '' VCU_E VCU_P'' @
          [10, 10, 10])"
  by (simp add: legacy_defs legacy_sheet_defs str_defs ascii_defs)

lemma legacy_hex_id:
  "legacy_message_section ascii_rt [u ''VCU_E'', u ''VCU_P''] None (legacy_sheet (CStr (u ''0x100''))) =
     Inr (u ''BO_ 256 EngineStatus: 8 VCU_P'' @ [10] @
          u ''SG_ EngineSpeed : 19|16@0+ (1,0) [0|0] '' @ [34, 34] @ u '' VCU_E VCU_P'' @
          [10, 10, 10])"
  by (simp add: legacy_defs legacy_sheet_defs str_defs ascii_defs)

lemma legacy_bad_id:
  "legacy_message_section ascii_rt [u ''VCU_E'', u ''VCU_P''] None (legacy_sheet (CStr (u ''xyz''))) =
     Inl ValueError"
  by (simp add: legacy_defs legacy_sheet_defs str_defs ascii_defs)

section \<open>ASCII output\<close>

lemma ensure_ascii_subset: "set (ensure_ascii s) \<subseteq> {c \<in> set s. c < 128} \<union> {79, 104, 109}"
  by (induction s) (auto simp: u_def)

lemma ensure_ascii_is_ascii: "c \<in> set (ensure_ascii s) \<Longrightarrow> c < 128"
  using ensure_ascii_subset [of s] by auto

lemma ensure_ascii_concat:
  "ensure_ascii s =
     concat (map (\<lambda>c. if c < 128 then [c] else if c = 937 then u ''Ohm'' else []) s)"
  by (induction s) auto

lemma replace_cr_no_cr: "13 \<notin> set (replace_cr s)"
  by (auto simp: replace_cr_def)

lemma postprocess_is_ascii: "c \<in> set (postprocess s) \<Longrightarrow> c < 128"
  by (simp add: postprocess_def ensure_ascii_is_ascii)

lemma postprocess_no_cr: "13 \<notin> set (postprocess s)"
  using ensure_ascii_subset [of "replace_cr (replace_crlf s)"] replace_cr_no_cr
  by (auto simp: postprocess_def)

lemma replace_crlf_id: "13 \<notin> set s \<Longrightarrow> replace_crlf s = s"
  by (induction s rule: replace_crlf.induct) auto

lemma postprocess_id: "13 \<notin> set s \<Longrightarrow> \<forall>c\<in>set s. c < 128 \<Longrightarrow> postprocess s = s"
proof -
  assume a: "13 \<notin> set s" and b: "\<forall>c\<in>set s. c < 128"
  have "replace_cr s = s" using a by (induction s) (auto simp: replace_cr_def)
  moreover have "ensure_ascii s = s" using b by (induction s) auto
  ultimately show ?thesis using a by (simp add: postprocess_def replace_crlf_id)
qed

lemma postprocess_example:
  "postprocess (u ''a'' @ [13, 10] @ u ''b'' @ [13] @ [937, 20013, 25991] @ u ''c'') =
     u ''a'' @ [10] @ u ''b'' @ [10] @ u ''Ohmc''"
  by (simp add: postprocess_def replace_cr_def u_def)

text \<open>
  Claim C7 says that every file is post-processed before it is written: line ends
  become LF, the Omega becomes \<^verbatim>\<open>Ohm\<close>, every other code point beyond ASCII is
  dropped, and the file holds ASCII only. The legacy generator does this
  (\<open>postprocess_is_ascii\<close>, \<open>postprocess_no_cr\<close>, \<open>ensure_ascii_concat\<close>). The core
  generator writes its text as it is: for the example sheet, whose signal has the
  unit Omega, both files contain the code point 937, and the legacy
  post-processing would have changed the text.
\<close>

theorem core_file_keeps_non_ascii:
  "generate_dbc ascii_rt posix_seps ex_generator (u ''out.dbc'') None False =
     Inr [(u ''out_PCAN.dbc'', ex_text), (u ''out_ECAN.dbc'', ex_text)] \<and>
   937 \<in> set ex_text \<and> postprocess ex_text \<noteq> ex_text"
proof -
  have om: "937 \<in> set ex_text" by (simp add: ex_text_def)
  have "937 \<notin> set (postprocess ex_text)" using postprocess_is_ascii [of 937 ex_text] by auto
  with om have "postprocess ex_text \<noteq> ex_text" by auto
  with om show ?thesis by (simp add: ex_run ex_names)
qed

section \<open>The sender of a message\<close>

lemma message_row_sender:
  assumes "message_row rt idc namec dlcc r ms = Inr ms'"
    and "list_all (\<lambda>km. msg_sender (snd km) = vector_xxx) ms"
  shows "list_all (\<lambda>km. msg_sender (snd km) = vector_xxx) ms'"
  using assms
  by (auto simp: message_row_def Let_def split: if_splits option.splits sum.splits prod.splits)

lemma message_rows_sender:
  "message_rows rt idc namec dlcc rs ms = Inr ms' \<Longrightarrow>
   list_all (\<lambda>km. msg_sender (snd km) = vector_xxx) ms \<Longrightarrow>
   list_all (\<lambda>km. msg_sender (snd km) = vector_xxx) ms'"
proof (induction rs arbitrary: ms)
  case Nil
  then show ?case by simp
next
  case (Cons r rs)
  then show ?case by (auto split: sum.splits dest: message_row_sender)
qed

lemma core_sender_always_default:
  "extract_messages rt df = Inr ms \<Longrightarrow> list_all (\<lambda>km. msg_sender (snd km) = vector_xxx) ms"
  by (auto simp: extract_messages_def split: option.splits dest: message_rows_sender)

lemma find_sender_tx:
  "find_sender ncols r = col \<Longrightarrow> col \<noteq> u ''Unknown'' \<Longrightarrow>
   col \<in> set ncols \<and> r col = Some (CStr (u ''Tx''))"
  by (auto simp: find_sender_def find_Some_iff split: option.splits)

lemma find_sender_none:
  "list_all (\<lambda>col. r col \<noteq> Some (CStr (u ''Tx''))) ncols \<Longrightarrow>
   find_sender ncols r = u ''Unknown''"
proof -
  assume a: "list_all (\<lambda>col. r col \<noteq> Some (CStr (u ''Tx''))) ncols"
  have "find (\<lambda>col. present r col \<and> r col = Some (CStr (u ''Tx''))) ncols = None"
    using a by (auto simp: find_None_iff list_all_iff)
  then show ?thesis by (simp add: find_sender_def)
qed

text \<open>
  Claim C4 says that the sender in the BO_ line is the node whose indicator column
  reads \<^verbatim>\<open>Tx\<close> in the header row of the message, and the default node when there
  is none. The legacy generator looks the sender up (\<open>find_sender_tx\<close>,
  \<open>find_sender_none\<close>). The core generator never does
  (\<open>core_sender_always_default\<close>): the header row of the example sheet reads
  \<^verbatim>\<open>Tx\<close> under the node column \<^verbatim>\<open>VCU_P\<close>, which the legacy lookup finds, and
  the core BO_ line names \<^verbatim>\<open>Vector__XXX\<close>.
\<close>

theorem core_sender_ignores_tx:
  "ex_header_row (u ''VCU_P'') = Some (CStr (u ''Tx'')) \<and>
   u ''VCU_P'' \<in> set (node_columns ex_generator) \<and>
   extract_messages ascii_rt ex_sheet =
     Inr [(u ''256'', \<lparr>msg_id = u ''256'', msg_hex_id = u ''0x100'',
           msg_name = u ''EngineStatus'', msg_dlc = u ''8'',
           msg_sender = u ''Vector__XXX'', msg_signals = []\<rparr>)] \<and>
   bo_line (u ''256'') \<lparr>msg_id = u ''256'', msg_hex_id = u ''0x100'',
           msg_name = u ''EngineStatus'', msg_dlc = u ''8'',
           msg_sender = u ''Vector__XXX'', msg_signals = []\<rparr> =
     u ''BO_ 256 EngineStatus: 8 Vector__XXX'' \<and>
   find_sender (node_columns ex_generator) ex_header_row = u ''VCU_P''"
proof -
  have a: "ex_header_row (u ''VCU_P'') = Some (CStr (u ''Tx''))"
    by (simp add: ex_header_row_def mk_row_def ex_columns_def u_def)
  have b: "node_columns ex_generator = [u ''VCU_P'', u ''VCU_E'']"
    by (simp add: ex_generator_def ex_node_columns)
  have c: "find_sender [u ''VCU_P'', u ''VCU_E''] ex_header_row = u ''VCU_P''"
    by (simp add: find_sender_def present_def isna_def a)
  have d: "bo_line (u ''256'') \<lparr>msg_id = u ''256'', msg_hex_id = u ''0x100'',
           msg_name = u ''EngineStatus'', msg_dlc = u ''8'',
           msg_sender = u ''Vector__XXX'', msg_signals = []\<rparr> =
     u ''BO_ 256 EngineStatus: 8 Vector__XXX''"
    by (simp add: bo_line_def u_def)
  from a b c d ex_messages show ?thesis by simp
qed

section \<open>One file per bus\<close>

lemma write_bus_result:
  assumes "write_bus rt seps df ncols out canfd b = Inr f"
  shows "fst f = bus_file_name seps out b \<and>
         (\<exists>ms sgs. extract_messages rt df = Inr ms \<and> extract_signals rt df = Inr sgs \<and>
            snd f = generate_header canfd @ generate_nodes (extract_nodes rt df ncols) @
                    generate_messages_and_signals ms sgs)"
  using assms by (auto simp: write_bus_def Let_def split: sum.splits)

lemma write_buses_result:
  "write_buses rt seps df ncols out canfd bs = Inr files \<Longrightarrow>
   list_all2 (\<lambda>b f. write_bus rt seps df ncols out canfd b = Inr f) bs files"
proof (induction bs arbitrary: files)
  case Nil
  then show ?case by simp
next
  case (Cons b bs)
  then show ?case by (auto split: sum.splits)
qed

lemma write_buses_names:
  assumes "write_buses rt seps df ncols out canfd bs = Inr files"
  shows "map fst files = map (bus_file_name seps out) bs"
proof -
  have "list_all2 (\<lambda>b f. fst f = bus_file_name seps out b) bs files"
    using write_buses_result [OF assms] write_bus_result
    by (auto elim!: list_all2_mono)
  then show ?thesis
    by (induction bs files rule: list_all2_induct) auto
qed

lemma write_buses_member:
  assumes "write_buses rt seps df ncols out canfd bs = Inr files" and "f \<in> set files"
  shows "\<exists>b\<in>set bs. write_bus rt seps df ncols out canfd b = Inr f"
proof -
  from write_buses_result [OF assms(1)] assms(2) show ?thesis
    by (induction bs files rule: list_all2_induct) auto
qed

lemma generate_dbc_buses:
  assumes "generate_dbc rt seps g out target canfd = Inr files" and "matrix_data g = Some df"
  shows "\<exists>found. collect_bus_types df (node_columns g) [] = Inr found \<and>
           write_buses rt seps df (node_columns g) out canfd
             (case target of None \<Rightarrow> found | Some t \<Rightarrow> if t \<noteq> [] then [t] else found) =
           Inr files"
  using assms by (auto simp: generate_dbc_def Let_def split: if_splits sum.splits option.splits)

text \<open>
  Claim C10. In the core generator, the files of one successful run all hold the
  same text: the header, the node list of the whole sheet and the messages and
  signals of the whole sheet. The bus type enters the name of the file only.
\<close>

theorem bus_files_have_one_text:
  assumes "generate_dbc rt seps g out target canfd = Inr files" and "matrix_data g = Some df"
  shows "(\<forall>f\<in>set files. \<forall>f'\<in>set files. snd f = snd f') \<and>
         (\<forall>f\<in>set files. \<exists>ms sgs.
             extract_messages rt df = Inr ms \<and> extract_signals rt df = Inr sgs \<and>
             snd f = generate_header canfd @
                     generate_nodes (extract_nodes rt df (node_columns g)) @
                     generate_messages_and_signals ms sgs)"
proof -
  obtain bs where bs: "write_buses rt seps df (node_columns g) out canfd bs = Inr files"
    using generate_dbc_buses [OF assms] by blast
  have each: "\<exists>ms sgs.
             extract_messages rt df = Inr ms \<and> extract_signals rt df = Inr sgs \<and>
             snd f = generate_header canfd @
                     generate_nodes (extract_nodes rt df (node_columns g)) @
                     generate_messages_and_signals ms sgs" if "f \<in> set files" for f
    using write_buses_member [OF bs that] write_bus_result by blast
  have "snd f = snd f'" if "f \<in> set files" "f' \<in> set files" for f f'
    using each [OF that(1)] each [OF that(2)] by auto
  with each show ?thesis by blast
qed

theorem bus_files_have_one_text_witness:
  "generate_dbc ascii_rt posix_seps ex_generator (u ''out.dbc'') None False =
     Inr [(u ''out_PCAN.dbc'', ex_text), (u ''out_ECAN.dbc'', ex_text)] \<and>
   matrix_data ex_generator = Some ex_sheet \<and>
   snd (u ''out_PCAN.dbc'', ex_text) = snd (u ''out_ECAN.dbc'', ex_text) \<and>
   (\<exists>ms sgs. extract_messages ascii_rt ex_sheet = Inr ms \<and>
      extract_signals ascii_rt ex_sheet = Inr sgs \<and>
      ex_text = generate_header False @
                generate_nodes (extract_nodes ascii_rt ex_sheet (node_columns ex_generator)) @
                generate_messages_and_signals ms sgs)"
proof -
  have run: "generate_dbc ascii_rt posix_seps ex_generator (u ''out.dbc'') None False =
     Inr [(u ''out_PCAN.dbc'', ex_text), (u ''out_ECAN.dbc'', ex_text)]"
    by (simp add: ex_run ex_names)
  have md: "matrix_data ex_generator = Some ex_sheet" by (simp add: ex_generator_def)
  from bus_files_have_one_text [OF run md] run md show ?thesis by simp
qed

section \<open>The names of the files\<close>

lemma underscore_two_parts: "contains (u ''_'') col \<Longrightarrow> 2 \<le> length (py_split 95 col)"
proof -
  assume "contains (u ''_'') col"
  then have "95 \<in> set col" by (simp add: u_def contains_single)
  then have "filter (\<lambda>x. x = 95) col \<noteq> []" by (auto simp: filter_empty_conv)
  then show ?thesis by (cases "filter (\<lambda>x. x = 95) col") (auto simp: length_py_split)
qed

lemma non_na_count_has_data: "non_na_count df col = Inr n \<Longrightarrow> 0 < n \<longleftrightarrow> has_data df col"
  by (auto simp: non_na_count_def has_data_def list_ex_iff filter_empty_conv split: if_splits)

lemma set_set_add: "set (set_add x xs) = insert x (set xs)"
  by (auto simp: set_add_def)

lemma distinct_set_add: "distinct xs \<Longrightarrow> distinct (set_add x xs)"
  by (auto simp: set_add_def)

lemma live_suffixes_Cons:
  "live_suffixes df (col # cols) =
     (if contains (u ''_'') col \<and> has_data df col
      then insert (last (py_split 95 col)) (live_suffixes df cols)
      else live_suffixes df cols)"
  by (simp add: live_suffixes_def)

lemma collect_bus_types_set:
  "collect_bus_types df ncols acc = Inr found \<Longrightarrow>
   set found = set acc \<union> live_suffixes df ncols \<and> (distinct acc \<longrightarrow> distinct found)"
proof (induction ncols arbitrary: acc)
  case Nil
  then show ?case by (simp add: live_suffixes_def)
next
  case (Cons col cols)
  show ?case
  proof (cases "contains (u ''_'') col")
    case False
    with Cons show ?thesis by (simp add: live_suffixes_Cons)
  next
    case True
    then have two: "2 \<le> length (py_split 95 col)" by (rule underscore_two_parts)
    from Cons.prems True two obtain n where n: "non_na_count df col = Inr n"
      by (auto simp: Let_def split: sum.splits)
    show ?thesis
    proof (cases "0 < n")
      case True
      with Cons.prems \<open>contains (u ''_'') col\<close> two n
      have "collect_bus_types df cols (set_add (last (py_split 95 col)) acc) = Inr found"
        by (simp add: Let_def)
      from Cons.IH [OF this] True n \<open>contains (u ''_'') col\<close> show ?thesis
        by (auto simp: live_suffixes_Cons set_set_add distinct_set_add
            non_na_count_has_data [OF n, symmetric])
    next
      case False
      with Cons.prems \<open>contains (u ''_'') col\<close> two n
      have "collect_bus_types df cols acc = Inr found" by (simp add: Let_def)
      from Cons.IH [OF this] False n show ?thesis
        by (auto simp: live_suffixes_Cons non_na_count_has_data [OF n, symmetric])
    qed
  qed
qed

lemma bus_file_name_form:
  "splitext seps out = (base, ext) \<Longrightarrow>
   bus_file_name seps out b = base @ u ''_'' @ b @ u ''CAN'' @ ext"
  by (simp add: bus_file_name_def)

lemma bus_file_name_inj: "inj (bus_file_name seps out)"
proof (rule injI)
  fix b b' assume eq: "bus_file_name seps out b = bus_file_name seps out b'"
  obtain base ext where sp: "splitext seps out = (base, ext)" by (cases "splitext seps out")
  from eq have "b @ (u ''CAN'' @ ext) = b' @ (u ''CAN'' @ ext)"
    by (simp add: bus_file_name_form [OF sp])
  then show "b = b'" by (simp only: append_same_eq)
qed

lemma vcu_suffixes:
  "contains (u ''_'') (u ''VCU_P'')" "contains (u ''_'') (u ''VCU_E'')"
  "last (py_split 95 (u ''VCU_P'')) = u ''P''" "last (py_split 95 (u ''VCU_E'')) = u ''E''"
  by (simp_all add: str_defs)

lemma ex_has_data: "has_data ex_sheet (u ''VCU_P'')" "has_data ex_sheet (u ''VCU_E'')"
  by (simp_all add: has_data_def sheet_defs u_def)

text \<open>
  The names of the files of a successful run of the core generator without a
  target bus: \<^verbatim>\<open>base_<suffix>CAN<ext>\<close>, one for each suffix of a node column that
  has an underscore and a cell that is not missing, where \<^verbatim>\<open>(base, ext)\<close> is
  \<^verbatim>\<open>os.path.splitext\<close> of the output path. The names are distinct, and a suffix
  whose columns have no data gets no file. When the node columns are \<^verbatim>\<open>VCU_P\<close>
  and \<^verbatim>\<open>VCU_E\<close> and both have data, the files are exactly two.
\<close>

theorem bus_files_named_after_output_path:
  assumes run: "generate_dbc rt seps g out None canfd = Inr files"
    and md: "matrix_data g = Some df"
    and sp: "splitext seps out = (base, ext)"
  shows "distinct (map fst files) \<and>
         fst ` set files =
           (\<lambda>b. base @ u ''_'' @ b @ u ''CAN'' @ ext) ` live_suffixes df (node_columns g) \<and>
         (set (node_columns g) = {u ''VCU_P'', u ''VCU_E''} \<and>
          has_data df (u ''VCU_P'') \<and> has_data df (u ''VCU_E'') \<longrightarrow>
            length files = 2 \<and>
            fst ` set files = {base @ u ''_PCAN'' @ ext, base @ u ''_ECAN'' @ ext})"
proof -
  from generate_dbc_buses [OF run md] obtain found where
    found: "collect_bus_types df (node_columns g) [] = Inr found" and
    wb: "write_buses rt seps df (node_columns g) out canfd found = Inr files"
    by auto
  have names: "map fst files = map (bus_file_name seps out) found"
    by (rule write_buses_names [OF wb])
  from collect_bus_types_set [OF found]
  have sf: "set found = live_suffixes df (node_columns g)" and df: "distinct found" by auto
  have bf: "bus_file_name seps out = (\<lambda>b. base @ u ''_'' @ b @ u ''CAN'' @ ext)"
    by (rule ext) (simp add: bus_file_name_form [OF sp])
  have d: "distinct (map fst files)"
    unfolding names using df bus_file_name_inj [of seps out]
    by (simp add: distinct_map inj_on_def inj_def)
  have "fst ` set files = set (map fst files)" by simp
  also have "\<dots> = bus_file_name seps out ` set found" unfolding names by simp
  finally have img: "fst ` set files =
      (\<lambda>b. base @ u ''_'' @ b @ u ''CAN'' @ ext) ` live_suffixes df (node_columns g)"
    by (simp add: sf bf)
  have scen: "length files = 2 \<and>
      fst ` set files = {base @ u ''_PCAN'' @ ext, base @ u ''_ECAN'' @ ext}"
    if h: "set (node_columns g) = {u ''VCU_P'', u ''VCU_E''}"
      "has_data df (u ''VCU_P'')" "has_data df (u ''VCU_E'')"
  proof -
    have "live_suffixes df (node_columns g) =
        (\<lambda>col. last (py_split 95 col)) `
          {col \<in> set (node_columns g). contains (u ''_'') col \<and> has_data df col}"
      by (simp add: live_suffixes_def)
    also have "{col \<in> set (node_columns g). contains (u ''_'') col \<and> has_data df col} =
        {u ''VCU_P'', u ''VCU_E''}"
      using h vcu_suffixes by auto
    finally have ls: "live_suffixes df (node_columns g) = {u ''P'', u ''E''}"
      by (simp add: vcu_suffixes)
    have "length files = length found" using names by (metis length_map)
    also have "\<dots> = card (set found)" using df by (simp add: distinct_card)
    also have "\<dots> = 2" by (simp add: sf ls u_def)
    finally have "length files = 2" .
    moreover have "fst ` set files = {base @ u ''_PCAN'' @ ext, base @ u ''_ECAN'' @ ext}"
      by (simp add: img ls u_def)
    ultimately show ?thesis by simp
  qed
  from d img scen show ?thesis by blast
qed

theorem bus_files_named_after_output_path_witness:
  "generate_dbc ascii_rt posix_seps ex_generator (u ''out.dbc'') None False =
     Inr [(u ''out_PCAN.dbc'', ex_text), (u ''out_ECAN.dbc'', ex_text)] \<and>
   matrix_data ex_generator = Some ex_sheet \<and>
   splitext posix_seps (u ''out.dbc'') = (u ''out'', u ''.dbc'') \<and>
   set (node_columns ex_generator) = {u ''VCU_P'', u ''VCU_E''} \<and>
   has_data ex_sheet (u ''VCU_P'') \<and> has_data ex_sheet (u ''VCU_E'') \<and>
   length [(u ''out_PCAN.dbc'', ex_text), (u ''out_ECAN.dbc'', ex_text)] = 2 \<and>
   fst ` set [(u ''out_PCAN.dbc'', ex_text), (u ''out_ECAN.dbc'', ex_text)] =
     {u ''out'' @ u ''_PCAN'' @ u ''.dbc'', u ''out'' @ u ''_ECAN'' @ u ''.dbc''}"
proof -
  have run: "generate_dbc ascii_rt posix_seps ex_generator (u ''out.dbc'') None False =
     Inr [(u ''out_PCAN.dbc'', ex_text), (u ''out_ECAN.dbc'', ex_text)]"
    by (simp add: ex_run ex_names)
  have md: "matrix_data ex_generator = Some ex_sheet" by (simp add: ex_generator_def)
  have sp: "splitext posix_seps (u ''out.dbc'') = (u ''out'', u ''.dbc'')"
    by (simp add: splitext_def rfind_def posix_seps_def u_def)
  have nc: "set (node_columns ex_generator) = {u ''VCU_P'', u ''VCU_E''}"
    by (simp add: ex_generator_def ex_node_columns)
  from bus_files_named_after_output_path [OF run md sp] nc ex_has_data run md sp
  show ?thesis by blast
qed

lemma legacy_output_file_dbc:
  "legacy_output_file ascii_rt (u ''out.txt'') = u ''out.txt.dbc''"
  "legacy_output_file ascii_rt (u ''out.dbc'') = u ''out.dbc''"
  "endswith (legacy_output_file rt p) (u ''.dbc'') \<or>
   endswith (to_lower rt (legacy_output_file rt p)) (u ''.dbc'')"
  by (simp_all add: legacy_output_file_def str_defs ascii_defs)

text \<open>
  Claim C9 says that for node columns \<^verbatim>\<open>VCU_P\<close> and \<^verbatim>\<open>VCU_E\<close> with data, a
  successful run writes exactly two files, whose names end with \<^verbatim>\<open>_PCAN.dbc\<close> and
  \<^verbatim>\<open>_ECAN.dbc\<close>. The core generator writes exactly two files
  (\<open>bus_files_named_after_output_path\<close>), but it keeps the extension of the output
  path where the legacy generator makes the name end with \<^verbatim>\<open>.dbc\<close>
  (\<open>legacy_output_file_dbc\<close>): with the output path \<^verbatim>\<open>out.txt\<close> the two files of
  the example sheet are \<^verbatim>\<open>out_PCAN.txt\<close> and \<^verbatim>\<open>out_ECAN.txt\<close>.
\<close>

theorem txt_output_path_gives_txt_files:
  "node_columns ex_generator = [u ''VCU_P'', u ''VCU_E''] \<and>
   has_data ex_sheet (u ''VCU_P'') \<and> has_data ex_sheet (u ''VCU_E'') \<and>
   generate_dbc ascii_rt posix_seps ex_generator (u ''out.txt'') None False =
     Inr [(u ''out_PCAN.txt'', ex_text), (u ''out_ECAN.txt'', ex_text)] \<and>
   \<not> endswith (u ''out_PCAN.txt'') (u ''_PCAN.dbc'') \<and>
   \<not> endswith (u ''out_ECAN.txt'') (u ''_ECAN.dbc'')"
proof -
  have "\<not> endswith (u ''out_PCAN.txt'') (u ''_PCAN.dbc'')"
       "\<not> endswith (u ''out_ECAN.txt'') (u ''_ECAN.dbc'')"
    by (simp_all add: endswith_def u_def)
  moreover have "node_columns ex_generator = [u ''VCU_P'', u ''VCU_E'']"
    by (simp add: ex_generator_def ex_node_columns)
  moreover have "generate_dbc ascii_rt posix_seps ex_generator (u ''out.txt'') None False =
     Inr [(u ''out_PCAN.txt'', ex_text), (u ''out_ECAN.txt'', ex_text)]"
    by (simp add: ex_run ex_names)
  ultimately show ?thesis using ex_has_data by simp
qed

section \<open>Rows whose message id does not parse\<close>

lemma parse_ids_agree:
  "parse_message_id rt s = None \<longleftrightarrow> parse_current_id rt s = None"
  by (auto simp: parse_message_id_def parse_current_id_def split: option.splits)

lemma ex_sigcols:
  "find_sigcols ascii_rt ex_columns =
     \<lparr>start_bit_col = Some (u ''Start Bit''), start_byte_col = Some (u ''Start Byte''),
      signal_length_col = None, byte_order_col = Some (u ''Byte Order''),
      value_type_col = None, factor_col = None, offset_col = None,
      unit_col = Some (u ''Unit''), min_val_col = None, max_val_col = None\<rparr>"
  by (simp add: find_sigcols_def sigcols_step_def no_sigcols_def ex_columns_def Let_def
        str_defs ascii_defs)

text \<open>
  Claim C3, amended. A row whose message-id cell is not missing and not blank but
  does not parse is skipped by the core generator without an error, and the loop
  goes on with the next row: no message is made from it and the signals collected
  so far stay as they are. The current message, however, is reset to none, so the
  following rows with a missing id cell are ignored, until a row whose id parses.
\<close>

theorem unparsable_id_row_resets_current_message:
  assumes cell: "r idc = Some v" and present: "v \<noteq> NA"
    and nonempty: "py_strip (str_cell rt v) \<noteq> []"
    and bad: "parse_current_id rt (py_strip (str_cell rt v)) = None"
  shows "signal_row rt idc namec sc r st = Inr (st\<lparr>current_msg_id := None\<rparr>) \<and>
         message_row rt idc mnamec dlcc r ms = Inr ms \<and>
         signal_rows rt idc namec sc (r # rs) st =
           signal_rows rt idc namec sc rs (st\<lparr>current_msg_id := None\<rparr>) \<and>
         (\<forall>r'. r' idc = Some NA \<longrightarrow>
            signal_row rt idc namec sc r' (st\<lparr>current_msg_id := None\<rparr>) =
              Inr (st\<lparr>current_msg_id := None\<rparr>))"
proof -
  have get: "row_get r idc NA = v" using cell by (simp add: row_get_def)
  have a: "signal_row rt idc namec sc r st = Inr (st\<lparr>current_msg_id := None\<rparr>)"
    using present nonempty bad by (simp add: signal_row_def get isna_def Let_def)
  have "parse_message_id rt (py_strip (str_cell rt v)) = None"
    using bad by (simp add: parse_ids_agree)
  then have b: "message_row rt idc mnamec dlcc r ms = Inr ms"
    using present nonempty by (simp add: message_row_def get isna_def Let_def)
  have c: "signal_rows rt idc namec sc (r # rs) st =
           signal_rows rt idc namec sc rs (st\<lparr>current_msg_id := None\<rparr>)"
    by (simp add: a)
  have d: "signal_row rt idc namec sc r' (st\<lparr>current_msg_id := None\<rparr>) =
              Inr (st\<lparr>current_msg_id := None\<rparr>)" if "r' idc = Some NA" for r'
    using that by (simp add: signal_row_def row_get_def isna_def Let_def)
  from a b c d show ?thesis by blast
qed

lemma ex_bad_id_row_cells:
  "ex_bad_id_row (u ''Msg ID'') = Some (CStr (u ''xyz''))"
  "ex_signal_row (u ''Msg ID'') = Some NA"
  by (simp_all add: ex_bad_id_row_def ex_signal_row_def mk_row_def ex_columns_def u_def)

lemma xyz_does_not_parse:
  "py_strip (str_cell ascii_rt (CStr (u ''xyz''))) = u ''xyz''"
  "parse_current_id ascii_rt (u ''xyz'') = None"
  "u ''xyz'' \<noteq> []"
  by (simp_all add: str_cell_def parse_current_id_def str_defs ascii_defs)

theorem unparsable_id_row_resets_current_message_witness:
  "ex_bad_id_row (u ''Msg ID'') = Some (CStr (u ''xyz'')) \<and> CStr (u ''xyz'') \<noteq> NA \<and>
   py_strip (str_cell ascii_rt (CStr (u ''xyz''))) \<noteq> [] \<and>
   parse_current_id ascii_rt (py_strip (str_cell ascii_rt (CStr (u ''xyz'')))) = None \<and>
   ex_signal_row (u ''Msg ID'') = Some NA \<and>
   signal_row ascii_rt (u ''Msg ID'') (u ''Signal Name'') (find_sigcols ascii_rt ex_columns)
     ex_bad_id_row \<lparr>current_msg_id = Some (u ''256''), signals = []\<rparr> =
     Inr \<lparr>current_msg_id = None, signals = []\<rparr> \<and>
   signal_row ascii_rt (u ''Msg ID'') (u ''Signal Name'') (find_sigcols ascii_rt ex_columns)
     ex_signal_row \<lparr>current_msg_id = None, signals = []\<rparr> =
     Inr \<lparr>current_msg_id = None, signals = []\<rparr>"
proof -
  have h1: "ex_bad_id_row (u ''Msg ID'') = Some (CStr (u ''xyz''))" by (rule ex_bad_id_row_cells)
  have h2: "CStr (u ''xyz'') \<noteq> NA" by simp
  have h3: "py_strip (str_cell ascii_rt (CStr (u ''xyz''))) \<noteq> []"
    by (simp add: xyz_does_not_parse)
  have h4: "parse_current_id ascii_rt (py_strip (str_cell ascii_rt (CStr (u ''xyz'')))) = None"
    by (simp add: xyz_does_not_parse)
  from unparsable_id_row_resets_current_message
      [where r = ex_bad_id_row and idc = "u ''Msg ID''" and v = "CStr (u ''xyz'')"
         and rt = ascii_rt and namec = "u ''Signal Name''"
         and sc = "find_sigcols ascii_rt ex_columns"
         and st = "\<lparr>current_msg_id = Some (u ''256''), signals = []\<rparr>",
       OF h1 h2 h3 h4]
    h1 h3 h4 ex_bad_id_row_cells(2)
  show ?thesis by simp
qed

text \<open>
  Claim C3 as stated fails: after the header row of message 256, the row with the
  id \<^verbatim>\<open>xyz\<close> changes the current message from 256 to none, and the signal row
  that follows is not appended to message 256. Without the row \<^verbatim>\<open>xyz\<close> it is.
\<close>

theorem signal_after_bad_id_row_is_dropped:
  "signal_row ascii_rt (u ''Msg ID'') (u ''Signal Name'') (find_sigcols ascii_rt ex_columns)
     ex_bad_id_row \<lparr>current_msg_id = Some (u ''256''), signals = []\<rparr> =
     Inr \<lparr>current_msg_id = None, signals = []\<rparr> \<and>
   extract_signals ascii_rt ex_bad_sheet = Inr [] \<and>
   extract_signals ascii_rt ex_sheet \<noteq> Inr []"
proof -
  have a: "signal_row ascii_rt (u ''Msg ID'') (u ''Signal Name'') (find_sigcols ascii_rt ex_columns)
     ex_bad_id_row \<lparr>current_msg_id = Some (u ''256''), signals = []\<rparr> =
     Inr \<lparr>current_msg_id = None, signals = []\<rparr>"
    by (simp add: signal_row_def ex_bad_id_row_cells row_get_def isna_def xyz_does_not_parse Let_def)
  have b: "extract_signals ascii_rt ex_bad_sheet = Inr []"
    by (simp add: sig_defs sheet_defs str_defs ascii_defs)
  have c: "extract_signals ascii_rt ex_sheet \<noteq> Inr []" by (simp add: ex_signals)
  from a b c show ?thesis by simp
qed

section \<open>Defaults of a signal\<close>

lemma int_float_CInt: "int_float rt (CInt n) = Inr n"
  by (simp add: int_float_def float_of_def int_of_pyfloat_def trunc_rat_of_int)

lemma str_int_0: "str_int 0 = u ''0''"
  by (simp add: str_defs)

lemma extract_start_bit_default:
  assumes "(start_bit_col sc = None \<and> start_byte_col sc = None) \<or>
           (\<exists>c. start_bit_col sc = Some c \<and> r c = Some NA) \<or>
           (\<exists>c. start_byte_col sc = Some c \<and> r c = Some NA)"
  shows "extract_start_bit rt sc r = Inr (u ''0'')"
  using assms
  by (auto simp: extract_start_bit_def row_get_opt_def row_get_def isna_def int_float_CInt
      str_int_0 Let_def)

lemma extract_start_bit_byte_only:
  assumes "start_bit_col sc = None" "start_byte_col sc = Some c" "r c = Some v" "v \<noteq> NA"
    "int_float rt v = Inr b"
  shows "extract_start_bit rt sc r = Inr (str_int (b * 8))"
  using assms
  by (simp add: extract_start_bit_def row_get_opt_def row_get_def isna_def int_float_CInt Let_def)

lemma extract_length_default:
  "unmapped_or_empty r (signal_length_col sc) \<Longrightarrow> extract_length rt sc r = Inr (u ''8'')"
  by (auto simp: extract_length_def unmapped_or_empty_def Let_def split: option.splits)

lemma extract_byte_order_default:
  "unmapped_or_empty r (byte_order_col sc) \<Longrightarrow> extract_byte_order rt sc r = u ''Motorola''"
  by (auto simp: extract_byte_order_def unmapped_or_empty_def Let_def split: option.splits)

lemma extract_value_type_default:
  "unmapped_or_empty r (value_type_col sc) \<Longrightarrow> extract_value_type rt sc r = u ''Unsigned''"
  by (auto simp: extract_value_type_def unmapped_or_empty_def Let_def split: option.splits)

lemma extract_float_text_default:
  "unmapped_or_empty r col \<Longrightarrow> extract_float_text rt col dflt r = dflt"
  by (auto simp: extract_float_text_def unmapped_or_empty_def Let_def split: option.splits)

lemma extract_unit_default:
  "unmapped_or_empty r (unit_col sc) \<Longrightarrow> extract_unit rt sc r = []"
  by (auto simp: extract_unit_def unmapped_or_empty_def Let_def split: option.splits)

lemma make_signal_fields:
  assumes "make_signal rt sc r nm = Inr sg"
  shows "extract_start_bit rt sc r = Inr (sig_start_bit sg) \<and>
         extract_length rt sc r = Inr (sig_length sg) \<and>
         sig_name sg = nm \<and>
         sig_byte_order sg = extract_byte_order rt sc r \<and>
         sig_value_type sg = extract_value_type rt sc r \<and>
         sig_factor sg = extract_float_text rt (factor_col sc) (u ''1.0'') r \<and>
         sig_offset sg = extract_float_text rt (offset_col sc) (u ''0.0'') r \<and>
         sig_min sg = extract_float_text rt (min_val_col sc) (u ''0'') r \<and>
         sig_max sg = extract_float_text rt (max_val_col sc) (u ''0'') r \<and>
         sig_unit sg = extract_unit rt sc r \<and>
         sig_receiver sg = u ''Vector__XXX''"
  using assms by (auto simp: make_signal_def vector_xxx_def Let_def split: sum.splits)

text \<open>
  Claim C6, amended. A signal made by the core generator has the default of each
  field that has no value in its row (no column found, or the cell missing):
  length 8, byte order \<^verbatim>\<open>Motorola\<close>, value type \<^verbatim>\<open>Unsigned\<close>, factor 1.0,
  offset 0.0, min 0, max 0, empty unit, and the default node as receiver when no
  node column of the row has a cell.
  The start bit is 0 when the start-bit cell or the start-byte cell is missing, or
  when neither column was found. When only the start-bit column was not found, the
  bit within the byte is 0 and the start bit is eight times the start byte.
\<close>

theorem signal_defaults:
  assumes "make_signal rt sc r nm = Inr sg"
  shows "((start_bit_col sc = None \<and> start_byte_col sc = None) \<or>
          (\<exists>c. start_bit_col sc = Some c \<and> r c = Some NA) \<or>
          (\<exists>c. start_byte_col sc = Some c \<and> r c = Some NA) \<longrightarrow>
            sig_start_bit sg = u ''0'') \<and>
         (start_bit_col sc = None \<and> start_byte_col sc = Some c \<and> r c = Some v \<and> v \<noteq> NA \<and>
          int_float rt v = Inr b \<longrightarrow> sig_start_bit sg = str_int (b * 8)) \<and>
         (unmapped_or_empty r (signal_length_col sc) \<longrightarrow> sig_length sg = u ''8'') \<and>
         (unmapped_or_empty r (byte_order_col sc) \<longrightarrow> sig_byte_order sg = u ''Motorola'') \<and>
         (unmapped_or_empty r (value_type_col sc) \<longrightarrow> sig_value_type sg = u ''Unsigned'') \<and>
         (unmapped_or_empty r (factor_col sc) \<longrightarrow> sig_factor sg = u ''1.0'') \<and>
         (unmapped_or_empty r (offset_col sc) \<longrightarrow> sig_offset sg = u ''0.0'') \<and>
         (unmapped_or_empty r (min_val_col sc) \<longrightarrow> sig_min sg = u ''0'') \<and>
         (unmapped_or_empty r (max_val_col sc) \<longrightarrow> sig_max sg = u ''0'') \<and>
         (unmapped_or_empty r (unit_col sc) \<longrightarrow> sig_unit sg = []) \<and>
         (list_all (\<lambda>col. isna (row_get r col NA)) ncols \<longrightarrow>
            sig_receiver sg = u ''Vector__XXX'')"
proof -
  note f = make_signal_fields [OF assms]
  have a: "sig_start_bit sg = u ''0''"
    if "(start_bit_col sc = None \<and> start_byte_col sc = None) \<or>
        (\<exists>c. start_bit_col sc = Some c \<and> r c = Some NA) \<or>
        (\<exists>c. start_byte_col sc = Some c \<and> r c = Some NA)"
    using extract_start_bit_default [OF that, of rt] f by simp
  have b: "sig_start_bit sg = str_int (b * 8)"
    if "start_bit_col sc = None \<and> start_byte_col sc = Some c \<and> r c = Some v \<and> v \<noteq> NA \<and>
        int_float rt v = Inr b"
    using extract_start_bit_byte_only [of sc c r v rt b] that f by simp
  have c: "sig_length sg = u ''8''" if "unmapped_or_empty r (signal_length_col sc)"
    using extract_length_default [OF that, of rt] f by simp
  from a b c f show ?thesis
    by (simp add: extract_byte_order_default extract_value_type_default
        extract_float_text_default extract_unit_default)
qed

lemma ex_byte_sigcols:
  "find_sigcols ascii_rt ex_byte_columns = no_sigcols\<lparr>start_byte_col := Some (u ''Start Byte'')\<rparr>"
  by (simp add: find_sigcols_def sigcols_step_def no_sigcols_def ex_byte_columns_def Let_def
        str_defs ascii_defs)

lemma ex_default_signal:
  "make_signal ascii_rt (find_sigcols ascii_rt ex_columns) ex_blank_row (u ''S'') =
     Inr (default_signal (u ''S''))"
  unfolding ex_sigcols
  by (simp add: default_signal_def make_signal_def extract_byte_order_def
      extract_length_def extract_value_type_def extract_start_bit_def extract_float_text_def
      extract_unit_def vector_xxx_def Let_def sheet_defs str_defs)

lemma ex_byte_signal:
  "make_signal ascii_rt (find_sigcols ascii_rt ex_byte_columns) ex_byte_row (u ''EngineSpeed'') =
     Inr ((default_signal (u ''EngineSpeed''))\<lparr>sig_start_bit := u ''16''\<rparr>)"
  unfolding ex_byte_sigcols
  by (simp add: no_sigcols_def default_signal_def make_signal_def
      extract_byte_order_def extract_length_def extract_value_type_def extract_start_bit_def
      extract_float_text_def extract_unit_def vector_xxx_def Let_def sheet_defs str_defs
      int_float_CInt)

theorem signal_defaults_witness:
  "make_signal ascii_rt (find_sigcols ascii_rt ex_columns) ex_blank_row (u ''S'') =
     Inr (default_signal (u ''S'')) \<and>
   start_byte_col (find_sigcols ascii_rt ex_columns) = Some (u ''Start Byte'') \<and>
   ex_blank_row (u ''Start Byte'') = Some NA \<and>
   unmapped_or_empty ex_blank_row (signal_length_col (find_sigcols ascii_rt ex_columns)) \<and>
   unmapped_or_empty ex_blank_row (byte_order_col (find_sigcols ascii_rt ex_columns)) \<and>
   unmapped_or_empty ex_blank_row (value_type_col (find_sigcols ascii_rt ex_columns)) \<and>
   unmapped_or_empty ex_blank_row (factor_col (find_sigcols ascii_rt ex_columns)) \<and>
   unmapped_or_empty ex_blank_row (offset_col (find_sigcols ascii_rt ex_columns)) \<and>
   unmapped_or_empty ex_blank_row (min_val_col (find_sigcols ascii_rt ex_columns)) \<and>
   unmapped_or_empty ex_blank_row (max_val_col (find_sigcols ascii_rt ex_columns)) \<and>
   unmapped_or_empty ex_blank_row (unit_col (find_sigcols ascii_rt ex_columns)) \<and>
   sig_start_bit (default_signal (u ''S'')) = u ''0'' \<and>
   sig_length (default_signal (u ''S'')) = u ''8'' \<and>
   sig_byte_order (default_signal (u ''S'')) = u ''Motorola'' \<and>
   list_all (\<lambda>col. isna (row_get ex_blank_row col NA)) [u ''VCU_P'', u ''VCU_E''] \<and>
   sig_receiver (default_signal (u ''S'')) = u ''Vector__XXX'' \<and>
   make_signal ascii_rt (find_sigcols ascii_rt ex_byte_columns) ex_byte_row (u ''EngineSpeed'') =
     Inr ((default_signal (u ''EngineSpeed''))\<lparr>sig_start_bit := u ''16''\<rparr>) \<and>
   start_bit_col (find_sigcols ascii_rt ex_byte_columns) = None \<and>
   start_byte_col (find_sigcols ascii_rt ex_byte_columns) = Some (u ''Start Byte'') \<and>
   ex_byte_row (u ''Start Byte'') = Some (CInt 2) \<and> CInt 2 \<noteq> NA \<and>
   int_float ascii_rt (CInt 2) = Inr 2 \<and>
   sig_start_bit ((default_signal (u ''EngineSpeed''))\<lparr>sig_start_bit := u ''16''\<rparr>) =
     str_int (2 * 8)"
proof -
  have cells: "ex_blank_row (u ''Start Byte'') = Some NA"
      "ex_byte_row (u ''Start Byte'') = Some (CInt 2)"
    by (simp_all add: sheet_defs u_def)
  have um: "unmapped_or_empty ex_blank_row (signal_length_col (find_sigcols ascii_rt ex_columns))"
    "unmapped_or_empty ex_blank_row (byte_order_col (find_sigcols ascii_rt ex_columns))"
    "unmapped_or_empty ex_blank_row (value_type_col (find_sigcols ascii_rt ex_columns))"
    "unmapped_or_empty ex_blank_row (factor_col (find_sigcols ascii_rt ex_columns))"
    "unmapped_or_empty ex_blank_row (offset_col (find_sigcols ascii_rt ex_columns))"
    "unmapped_or_empty ex_blank_row (min_val_col (find_sigcols ascii_rt ex_columns))"
    "unmapped_or_empty ex_blank_row (max_val_col (find_sigcols ascii_rt ex_columns))"
    "unmapped_or_empty ex_blank_row (unit_col (find_sigcols ascii_rt ex_columns))"
    unfolding ex_sigcols by (simp_all add: unmapped_or_empty_def sheet_defs u_def)
  have cols: "start_byte_col (find_sigcols ascii_rt ex_columns) = Some (u ''Start Byte'')"
    "start_bit_col (find_sigcols ascii_rt ex_byte_columns) = None"
    "start_byte_col (find_sigcols ascii_rt ex_byte_columns) = Some (u ''Start Byte'')"
    by (simp_all add: ex_sigcols ex_byte_sigcols no_sigcols_def)
  have i2: "int_float ascii_rt (CInt 2) = Inr 2" by (rule int_float_CInt)
  have nc: "list_all (\<lambda>col. isna (row_get ex_blank_row col NA)) [u ''VCU_P'', u ''VCU_E'']"
    by (simp add: row_get_def isna_def sheet_defs u_def)
  note t1 = signal_defaults [OF ex_default_signal, of "u ''Start Byte''" NA 0
      "[u ''VCU_P'', u ''VCU_E'']"]
  note t2 = signal_defaults [OF ex_byte_signal, of "u ''Start Byte''" "CInt 2" 2]
  from t1 t2 cells um cols i2 nc ex_default_signal ex_byte_signal show ?thesis
    by simp
qed

text \<open>
  Claim C6 as stated fails for the start bit: in a sheet with a start byte column
  and no start bit column, the signal with start byte 2 has the start bit 16, not
  the default 0.
\<close>

theorem unmapped_start_bit_column_gives_byte_offset:
  "start_bit_col (find_sigcols ascii_rt (columns ex_byte_sheet)) = None \<and>
   extract_signals ascii_rt ex_byte_sheet =
     Inr [(u ''256'', [(default_signal (u ''EngineSpeed''))\<lparr>sig_start_bit := u ''16''\<rparr>])] \<and>
   u ''16'' \<noteq> u ''0''"
proof -
  have a: "start_bit_col (find_sigcols ascii_rt (columns ex_byte_sheet)) = None"
    by (simp add: ex_byte_sheet_def ex_byte_sigcols no_sigcols_def)
  have b: "extract_signals ascii_rt ex_byte_sheet =
     Inr [(u ''256'', [(default_signal (u ''EngineSpeed''))\<lparr>sig_start_bit := u ''16''\<rparr>])]"
    by (simp add: default_signal_def sig_defs sheet_defs str_defs ascii_defs)
  have c: "u ''16'' \<noteq> u ''0''" by (simp add: u_def)
  from a b c show ?thesis by simp
qed

section \<open>The start bit of a signal\<close>

lemma extract_start_bit_pair:
  assumes "start_byte_col sc = Some cb" "start_bit_col sc = Some ck"
    and "r cb = Some vb" "r ck = Some vk" "vb \<noteq> NA" "vk \<noteq> NA"
    and "int_float rt vb = Inr b" "int_float rt vk = Inr k"
  shows "extract_start_bit rt sc r = Inr (str_int (b * 8 + k))"
  using assms
  by (simp add: extract_start_bit_def row_get_opt_def row_get_def isna_def Let_def)

lemma legacy_make_signal_start_bit:
  assumes "lr col_start_byte = Some lvb" "lvb \<noteq> NA" "int_cell rt lvb = Inr lb"
    and "lr col_start_bit = Some lvk" "lvk \<noteq> NA" "int_cell rt lvk = Inr lk"
    and "legacy_make_signal rt ncols lr cur lnm = Inr lsg"
  shows "ls_start_bit lsg = lb * 8 + lk \<and> ls_sig_name lsg = lnm"
  using assms
  by (auto simp: legacy_make_signal_def bind_err_def row_item_def int_or_def isna_def Let_def
      split: sum.splits option.splits if_splits)

lemma legacy_sg_line_start:
  assumes "legacy_sg_line rt nt avail lsg = Inr line"
  shows "\<exists>rest. line = u ''SG_ '' @ ls_sig_name lsg @ u '' : '' @
           str_int (ls_start_bit lsg) @ u ''|'' @ rest"
  using assms
  by (auto simp: legacy_sg_line_def bind_err_def format_num_def Let_def split: sum.splits)

lemma ex_signal_made:
  "make_signal ascii_rt (find_sigcols ascii_rt ex_columns) ex_signal_row (u ''EngineSpeed'') =
     Inr \<lparr>sig_name = u ''EngineSpeed'', sig_start_bit = u ''19'',
          sig_length = u ''8'', sig_byte_order = u ''Motorola'',
          sig_value_type = u ''Unsigned'', sig_factor = u ''1.0'', sig_offset = u ''0.0'',
          sig_min = u ''0'', sig_max = u ''0'', sig_unit = [937],
          sig_receiver = u ''Vector__XXX''\<rparr>"
  unfolding ex_sigcols
  by (simp add: make_signal_def extract_byte_order_def
      extract_length_def extract_value_type_def extract_start_bit_def extract_float_text_def
      extract_unit_def vector_xxx_def Let_def sheet_defs str_defs ascii_defs int_float_CInt)

lemma ex_intel_signal_made:
  "make_signal ascii_rt (find_sigcols ascii_rt ex_columns) ex_intel_row (u ''EngineSpeed'') =
     Inr \<lparr>sig_name = u ''EngineSpeed'', sig_start_bit = u ''19'',
          sig_length = u ''8'', sig_byte_order = u ''Intel'',
          sig_value_type = u ''Unsigned'', sig_factor = u ''1.0'', sig_offset = u ''0.0'',
          sig_min = u ''0'', sig_max = u ''0'', sig_unit = [],
          sig_receiver = u ''Vector__XXX''\<rparr>"
  unfolding ex_sigcols
  by (simp add: make_signal_def extract_byte_order_def
      extract_length_def extract_value_type_def extract_start_bit_def extract_float_text_def
      extract_unit_def vector_xxx_def Let_def sheet_defs str_defs ascii_defs int_float_CInt)

lemma legacy_signal_made:
  "legacy_make_signal ascii_rt [u ''VCU_E'', u ''VCU_P''] (legacy_signal_row0 order)
     (u ''EngineStatus'') (u ''EngineSpeed'') =
     Inr \<lparr>ls_msg_name = u ''EngineStatus'', ls_sig_name = u ''EngineSpeed'',
          ls_start_bit = 19, ls_signal_length = 16, ls_byte_order = py_strip order,
          ls_is_signed = 0, ls_factor = Finite 1, ls_offset = Finite 0,
          ls_min_phys = Finite 0, ls_max_phys = Finite 0, ls_unit = [],
          ls_receivers = [u ''VCU_E'']\<rparr>"
  by (simp add: legacy_defs legacy_sheet_defs str_defs ascii_defs)


text \<open>
  Claim C1. When the start byte and the start bit of a signal row are both read
  (cells that are not missing and convert to the integers \<open>b\<close> and \<open>k\<close>, with
  \<open>0 \<le> b\<close> and \<open>0 \<le> k \<le> 7\<close>), the start bit of the signal is \<open>b * 8 + k\<close>, and the
  SG_ line gives that number after the name. No other cell of the row enters the
  number: every row with these two cells has this start bit, whatever its byte
  order. The same holds in the legacy generator.
\<close>

theorem start_bit_is_byte_times_8_plus_bit:
  assumes "start_byte_col sc = Some cb" and "start_bit_col sc = Some ck"
    and "r cb = Some vb" and "r ck = Some vk" and "vb \<noteq> NA" and "vk \<noteq> NA"
    and "int_float rt vb = Inr b" and "int_float rt vk = Inr k"
    and "0 \<le> b" and "0 \<le> k" and "k \<le> 7"
    and "make_signal rt sc r nm = Inr sg"
  shows "sig_start_bit sg = str_int (b * 8 + k) \<and>
         (\<exists>rest. sg_line sg = u '' SG_ '' @ nm @ u '' : '' @ str_int (b * 8 + k) @ u ''|'' @ rest) \<and>
         (\<forall>r' nm' sg'. r' cb = Some vb \<and> r' ck = Some vk \<and>
              make_signal rt sc r' nm' = Inr sg' \<longrightarrow> sig_start_bit sg' = sig_start_bit sg) \<and>
         (lr col_start_byte = Some lvb \<and> lvb \<noteq> NA \<and> int_cell rt lvb = Inr lb \<and>
          lr col_start_bit = Some lvk \<and> lvk \<noteq> NA \<and> int_cell rt lvk = Inr lk \<and>
          0 \<le> lb \<and> 0 \<le> lk \<and> lk \<le> 7 \<and>
          legacy_make_signal rt ncols lr cur lnm = Inr lsg \<longrightarrow>
            ls_start_bit lsg = lb * 8 + lk \<and>
            (\<forall>line. legacy_sg_line rt nt avail lsg = Inr line \<longrightarrow>
               (\<exists>rest. line = u ''SG_ '' @ lnm @ u '' : '' @ str_int (lb * 8 + lk) @ u ''|'' @
                               rest)))"
proof -
  have sb: "extract_start_bit rt sc r' = Inr (str_int (b * 8 + k))"
    if "r' cb = Some vb" "r' ck = Some vk" for r'
    using extract_start_bit_pair [OF assms(1,2) that assms(5,6,7,8)] .
  have core: "sig_start_bit sg' = str_int (b * 8 + k)"
    if "r' cb = Some vb" "r' ck = Some vk" "make_signal rt sc r' nm' = Inr sg'" for r' nm' sg'
    using sb [OF that(1,2)] make_signal_fields [OF that(3)] by simp
  have a: "sig_start_bit sg = str_int (b * 8 + k)"
    using core [OF assms(3,4,12)] .
  have "sig_name sg = nm" using make_signal_fields [OF assms(12)] by simp
  then have l: "\<exists>rest. sg_line sg = u '' SG_ '' @ nm @ u '' : '' @ str_int (b * 8 + k) @
      u ''|'' @ rest"
    using a by (simp add: sg_line_def)
  have c3: "\<forall>r' nm' sg'. r' cb = Some vb \<and> r' ck = Some vk \<and>
              make_signal rt sc r' nm' = Inr sg' \<longrightarrow> sig_start_bit sg' = sig_start_bit sg"
    using core a by auto
  have leg: "lr col_start_byte = Some lvb \<and> lvb \<noteq> NA \<and> int_cell rt lvb = Inr lb \<and>
          lr col_start_bit = Some lvk \<and> lvk \<noteq> NA \<and> int_cell rt lvk = Inr lk \<and>
          0 \<le> lb \<and> 0 \<le> lk \<and> lk \<le> 7 \<and>
          legacy_make_signal rt ncols lr cur lnm = Inr lsg \<longrightarrow>
            ls_start_bit lsg = lb * 8 + lk \<and>
            (\<forall>line. legacy_sg_line rt nt avail lsg = Inr line \<longrightarrow>
               (\<exists>rest. line = u ''SG_ '' @ lnm @ u '' : '' @ str_int (lb * 8 + lk) @ u ''|'' @
                               rest))"
  proof (intro impI)
    assume h: "lr col_start_byte = Some lvb \<and> lvb \<noteq> NA \<and> int_cell rt lvb = Inr lb \<and>
          lr col_start_bit = Some lvk \<and> lvk \<noteq> NA \<and> int_cell rt lvk = Inr lk \<and>
          0 \<le> lb \<and> 0 \<le> lk \<and> lk \<le> 7 \<and>
          legacy_make_signal rt ncols lr cur lnm = Inr lsg"
    then have f: "ls_start_bit lsg = lb * 8 + lk \<and> ls_sig_name lsg = lnm"
      using legacy_make_signal_start_bit [of lr lvb rt lb lvk lk ncols cur lnm lsg] by blast
    then show "ls_start_bit lsg = lb * 8 + lk \<and>
            (\<forall>line. legacy_sg_line rt nt avail lsg = Inr line \<longrightarrow>
               (\<exists>rest. line = u ''SG_ '' @ lnm @ u '' : '' @ str_int (lb * 8 + lk) @ u ''|'' @
                               rest))"
      using legacy_sg_line_start [of rt nt avail lsg] by auto
  qed
  show ?thesis
    apply (rule conjI) apply (rule a)
    apply (rule conjI) apply (rule l)
    apply (rule conjI) apply (rule c3)
    apply (rule leg)
    done
qed

theorem start_bit_is_byte_times_8_plus_bit_witness:
  "\<exists>sg sg' lsg line.
     start_byte_col (find_sigcols ascii_rt ex_columns) = Some (u ''Start Byte'') \<and>
     start_bit_col (find_sigcols ascii_rt ex_columns) = Some (u ''Start Bit'') \<and>
     ex_signal_row (u ''Start Byte'') = Some (CInt 2) \<and>
     ex_signal_row (u ''Start Bit'') = Some (CInt 3) \<and>
     int_float ascii_rt (CInt 2) = Inr 2 \<and> int_float ascii_rt (CInt 3) = Inr 3 \<and>
     make_signal ascii_rt (find_sigcols ascii_rt ex_columns) ex_signal_row (u ''EngineSpeed'') =
       Inr sg \<and>
     sig_byte_order sg = u ''Motorola'' \<and>
     sig_start_bit sg = u ''19'' \<and>
     (\<exists>rest. sg_line sg = u '' SG_ EngineSpeed : 19|'' @ rest) \<and>
     ex_intel_row (u ''Start Byte'') = Some (CInt 2) \<and>
     ex_intel_row (u ''Start Bit'') = Some (CInt 3) \<and>
     make_signal ascii_rt (find_sigcols ascii_rt ex_columns) ex_intel_row (u ''EngineSpeed'') =
       Inr sg' \<and>
     sig_byte_order sg' = u ''Intel'' \<and>
     sig_start_bit sg' = u ''19'' \<and>
     legacy_signal_row0 (u ''Motorola'') col_start_byte = Some (CInt 2) \<and>
     legacy_signal_row0 (u ''Motorola'') col_start_bit = Some (CInt 3) \<and>
     int_cell ascii_rt (CInt 2) = Inr 2 \<and> int_cell ascii_rt (CInt 3) = Inr 3 \<and>
     legacy_make_signal ascii_rt [u ''VCU_E'', u ''VCU_P''] (legacy_signal_row0 (u ''Motorola''))
       (u ''EngineStatus'') (u ''EngineSpeed'') = Inr lsg \<and>
     ls_byte_order lsg = u ''Motorola'' \<and>
     ls_start_bit lsg = 19 \<and>
     legacy_sg_line ascii_rt None [u ''VCU_E'', u ''VCU_P''] lsg = Inr line \<and>
     (\<exists>rest. line = u ''SG_ EngineSpeed : 19|'' @ rest)"
proof -
  let ?sc = "find_sigcols ascii_rt ex_columns"
  let ?sg = "\<lparr>sig_name = u ''EngineSpeed'', sig_start_bit = u ''19'',
          sig_length = u ''8'', sig_byte_order = u ''Motorola'',
          sig_value_type = u ''Unsigned'', sig_factor = u ''1.0'', sig_offset = u ''0.0'',
          sig_min = u ''0'', sig_max = u ''0'', sig_unit = [937],
          sig_receiver = u ''Vector__XXX''\<rparr>"
  let ?sg' = "\<lparr>sig_name = u ''EngineSpeed'', sig_start_bit = u ''19'',
          sig_length = u ''8'', sig_byte_order = u ''Intel'',
          sig_value_type = u ''Unsigned'', sig_factor = u ''1.0'', sig_offset = u ''0.0'',
          sig_min = u ''0'', sig_max = u ''0'', sig_unit = [],
          sig_receiver = u ''Vector__XXX''\<rparr>"
  let ?lr = "legacy_signal_row0 (u ''Motorola'')"
  let ?lsg = "\<lparr>ls_msg_name = u ''EngineStatus'', ls_sig_name = u ''EngineSpeed'',
          ls_start_bit = 19, ls_signal_length = 16, ls_byte_order = u ''Motorola'',
          ls_is_signed = 0, ls_factor = Finite 1, ls_offset = Finite 0,
          ls_min_phys = Finite 0, ls_max_phys = Finite 0, ls_unit = [],
          ls_receivers = [u ''VCU_E'']\<rparr>"
  let ?line = "u ''SG_ EngineSpeed : 19|16@0+ (1,0) [0|0] '' @ [34, 34] @ u '' VCU_E VCU_P'' @ [10]"
  have cols: "start_byte_col ?sc = Some (u ''Start Byte'')"
    "start_bit_col ?sc = Some (u ''Start Bit'')"
    by (simp_all add: ex_sigcols)
  have cells: "ex_signal_row (u ''Start Byte'') = Some (CInt 2)"
    "ex_signal_row (u ''Start Bit'') = Some (CInt 3)"
    "ex_intel_row (u ''Start Byte'') = Some (CInt 2)"
    "ex_intel_row (u ''Start Bit'') = Some (CInt 3)"
    by (simp_all add: sheet_defs u_def)
  have lcells: "?lr col_start_byte = Some (CInt 2)" "?lr col_start_bit = Some (CInt 3)"
    by (simp_all add: legacy_sheet_defs u_def)
  have ints: "int_float ascii_rt (CInt 2) = Inr 2" "int_float ascii_rt (CInt 3) = Inr 3"
    "int_cell ascii_rt (CInt 2) = Inr 2" "int_cell ascii_rt (CInt 3) = Inr 3"
    by (simp_all add: int_float_CInt int_cell_def)
  have lsg: "legacy_make_signal ascii_rt [u ''VCU_E'', u ''VCU_P''] ?lr
       (u ''EngineStatus'') (u ''EngineSpeed'') = Inr ?lsg"
    using legacy_signal_made [of "u ''Motorola''"] by (simp add: str_defs)
  have line: "legacy_sg_line ascii_rt None [u ''VCU_E'', u ''VCU_P''] ?lsg = Inr ?line"
    by (simp add: legacy_defs str_defs ascii_defs)
  have n19: "str_int (2 * 8 + 3) = u ''19''" by (simp add: str_defs)
  have nn: "CInt 2 \<noteq> NA" "CInt 3 \<noteq> NA" by simp_all
  have ar: "(0::int) \<le> 2" "(0::int) \<le> 3" "(3::int) \<le> 7" by simp_all
  note t = start_bit_is_byte_times_8_plus_bit [where rt = ascii_rt and sc = ?sc
      and cb = "u ''Start Byte''" and ck = "u ''Start Bit''" and r = ex_signal_row
      and vb = "CInt 2" and vk = "CInt 3" and b = 2 and k = 3 and nm = "u ''EngineSpeed''"
      and sg = ?sg and lr = ?lr and lvb = "CInt 2" and lvk = "CInt 3" and lb = 2 and lk = 3
      and ncols = "[u ''VCU_E'', u ''VCU_P'']" and cur = "u ''EngineStatus''"
      and lnm = "u ''EngineSpeed''" and lsg = ?lsg and nt = None
      and avail = "[u ''VCU_E'', u ''VCU_P'']",
      OF cols cells(1,2) nn ints(1,2) ar ex_signal_made]
  have t': "sig_start_bit ?sg = str_int (2 * 8 + 3) \<and>
     (\<exists>rest. sg_line ?sg = u '' SG_ '' @ u ''EngineSpeed'' @ u '' : '' @ str_int (2 * 8 + 3) @
        u ''|'' @ rest) \<and>
     (\<forall>r' nm' sg'. r' (u ''Start Byte'') = Some (CInt 2) \<and> r' (u ''Start Bit'') = Some (CInt 3) \<and>
         make_signal ascii_rt ?sc r' nm' = Inr sg' \<longrightarrow> sig_start_bit sg' = sig_start_bit ?sg) \<and>
     ls_start_bit ?lsg = 2 * 8 + 3 \<and>
     (\<forall>line. legacy_sg_line ascii_rt None [u ''VCU_E'', u ''VCU_P''] ?lsg = Inr line \<longrightarrow>
        (\<exists>rest. line = u ''SG_ '' @ u ''EngineSpeed'' @ u '' : '' @ str_int (2 * 8 + 3) @
           u ''|'' @ rest))"
    using t lcells ints(3,4) lsg nn ar by blast
  from t' have s19: "sig_start_bit ?sg = u ''19''" using n19 by simp
  from t' have l19: "\<exists>rest. sg_line ?sg = u '' SG_ EngineSpeed : 19|'' @ rest"
    unfolding n19 by (simp add: u_def)
  from t' cells(3,4) ex_intel_signal_made
  have i19: "sig_start_bit ?sg' = sig_start_bit ?sg" by blast
  from t' line have ll: "\<exists>rest. ?line = u ''SG_ EngineSpeed : 19|'' @ rest"
    unfolding n19 by (simp add: u_def)
  show ?thesis
    apply (rule exI [of _ ?sg], rule exI [of _ ?sg'], rule exI [of _ ?lsg], rule exI [of _ ?line])
    using cols cells lcells ints ex_signal_made ex_intel_signal_made lsg line l19 ll
    by simp
qed

section \<open>The id of a message in the BO_ line\<close>

lemma parse_message_id_hex:
  assumes "startswith s (u ''0x'') \<or> startswith s (u ''0X'')" and "int_str rt 16 s = Some n"
  shows "parse_message_id rt s = Some (str_int n, s)"
  using assms by (simp add: parse_message_id_def)

lemma parse_message_id_decimal:
  assumes "\<not> startswith s (u ''0x'')" and "\<not> startswith s (u ''0X'')"
    and "int_str rt 10 s = Some n"
  shows "parse_message_id rt s = Some (s, u ''0x'' @ hex_upper n)"
  using assms by (simp add: parse_message_id_def)

lemma core_id_examples:
  "parse_message_id ascii_rt (u ''256'') = Some (u ''256'', u ''0x100'')"
  "parse_message_id ascii_rt (u ''0x100'') = Some (u ''256'', u ''0x100'')"
  "parse_current_id ascii_rt (u ''0256'') = Some (u ''256'')"
  by (simp_all add: parse_message_id_def parse_current_id_def str_defs ascii_defs)

lemma ex_padded_messages:
  "extract_messages ascii_rt ex_padded_sheet =
     Inr [(u ''0256'', \<lparr>msg_id = u ''0256'', msg_hex_id = u ''0x100'',
           msg_name = u ''EngineStatus'', msg_dlc = u ''8'',
           msg_sender = u ''Vector__XXX'', msg_signals = []\<rparr>)]"
  by (simp add: msg_defs sheet_defs ex_padded_header_row_def ex_padded_sheet_def str_defs
      ascii_defs)

lemma ex_padded_signals:
  "extract_signals ascii_rt ex_padded_sheet =
     Inr [(u ''256'', [\<lparr>sig_name = u ''EngineSpeed'', sig_start_bit = u ''19'',
           sig_length = u ''8'', sig_byte_order = u ''Motorola'',
           sig_value_type = u ''Unsigned'', sig_factor = u ''1.0'', sig_offset = u ''0.0'',
           sig_min = u ''0'', sig_max = u ''0'', sig_unit = [937],
           sig_receiver = u ''Vector__XXX''\<rparr>])]"
  by (simp add: sig_defs sheet_defs ex_padded_header_row_def ex_padded_sheet_def str_defs
      ascii_defs)

text \<open>
  Claim C2 says that the BO_ line gives the id of every message whose id cell
  parses in canonical decimal form: \<^verbatim>\<open>256\<close> for the text \<^verbatim>\<open>256\<close> and for the text
  \<^verbatim>\<open>0x100\<close>. The core generator converts a text with the prefix \<^verbatim>\<open>0x\<close>
  (\<open>parse_message_id_hex\<close>) and writes any other text as it stands
  (\<open>parse_message_id_decimal\<close>): the id \<^verbatim>\<open>0256\<close> parses and gives the line
  \<^verbatim>\<open>BO_ 0256\<close>, while the signals of that message are filed under \<^verbatim>\<open>256\<close> and
  are not written. The legacy generator reads every id as hexadecimal: the text
  \<^verbatim>\<open>256\<close> gives the line \<^verbatim>\<open>BO_ 598\<close>.
\<close>

theorem decimal_id_not_canonical:
  "parse_message_id ascii_rt (u ''0256'') = Some (u ''0256'', u ''0x100'') \<and>
   u ''0256'' \<noteq> str_int 256 \<and>
   (\<exists>msgs sigs.
      extract_messages ascii_rt ex_padded_sheet = Inr msgs \<and>
      extract_signals ascii_rt ex_padded_sheet = Inr sigs \<and>
      map fst msgs = [u ''0256''] \<and> map fst sigs = [u ''256''] \<and>
      generate_messages_and_signals msgs sigs =
        u ''BO_ 0256 EngineStatus: 8 Vector__XXX'' @ [10, 10, 10]) \<and>
   legacy_message_section ascii_rt [u ''VCU_E'', u ''VCU_P''] None
       (legacy_sheet (CStr (u ''256''))) =
     Inr (u ''BO_ 598 EngineStatus: 8 VCU_P'' @ [10] @
          u ''SG_ EngineSpeed : 19|16@0+ (1,0) [0|0] '' @ [34, 34] @ u '' VCU_E VCU_P'' @
          [10, 10, 10])"
proof -
  have a: "parse_message_id ascii_rt (u ''0256'') = Some (u ''0256'', u ''0x100'')"
    by (simp add: parse_message_id_def str_defs ascii_defs)
  have b: "u ''0256'' \<noteq> str_int 256" by (simp add: str_defs)
  have c: "generate_messages_and_signals
       [(u ''0256'', \<lparr>msg_id = u ''0256'', msg_hex_id = u ''0x100'',
           msg_name = u ''EngineStatus'', msg_dlc = u ''8'',
           msg_sender = u ''Vector__XXX'', msg_signals = []\<rparr>)]
       [(u ''256'', [\<lparr>sig_name = u ''EngineSpeed'', sig_start_bit = u ''19'',
           sig_length = u ''8'', sig_byte_order = u ''Motorola'',
           sig_value_type = u ''Unsigned'', sig_factor = u ''1.0'', sig_offset = u ''0.0'',
           sig_min = u ''0'', sig_max = u ''0'', sig_unit = [937],
           sig_receiver = u ''Vector__XXX''\<rparr>])] =
      u ''BO_ 0256 EngineStatus: 8 Vector__XXX'' @ [10, 10, 10]"
    by (simp add: generate_messages_and_signals_def message_block_def bo_line_def str_defs)
  from a b c ex_padded_messages ex_padded_signals legacy_decimal_id show ?thesis by simp
qed

end
